theory Spec2Isabelle
  imports Complex_Main "HOL-Library.DAList" "HOL-Library.Sublist"
begin

section \<open>The Tuzla Guide backend actor (src/backend/main.mo)\<close>

subsection \<open>Base types and the library operations the actor calls\<close>

text \<open>
  Motoko \<^verbatim>\<open>Text\<close> is modelled as \<^typ>\<open>string\<close> (the UTF-8 bytes of the text),
  \<^verbatim>\<open>Nat\<close> as \<^typ>\<open>nat\<close>, \<^verbatim>\<open>Int\<close> and \<^verbatim>\<open>Time.Time\<close> as \<^typ>\<open>int\<close>.
  A \<^verbatim>\<open>Principal\<close> is modelled by its textual form.

  A \<^verbatim>\<open>Float\<close> is modelled by the expression that produces it: a decimal
  literal of the source, \<^verbatim>\<open>Float.fromInt\<close> of an integer, or the quotient
  \<^verbatim>\<open>/\<close> of two Floats. No law of floating-point arithmetic is assumed: two
  Floats are equal in the model only when they are computed the same way, so an
  equation proved here holds whatever the 64-bit operations round to.
\<close>

type_synonym Text = string
type_synonym Time = int
type_synonym Principal = string

type_synonym UserId = Principal
type_synonym AttractionId = nat
type_synonym ReviewId = nat
type_synonym PaymentId = Text

datatype Float = Float_lit rat | Float_fromInt int | Float_div Float Float

text \<open>
  \<^verbatim>\<open>Trie.Trie<K, V>\<close> is a finite map that can be iterated. It is modelled by an
  association list with distinct keys; \<^verbatim>\<open>Trie.put(t, k, eq, v).0\<close> is the
  updated trie, \<^verbatim>\<open>Trie.iter\<close> yields every stored entry once. The order of the
  iteration is the order of the association list; no property below depends on it.
\<close>

type_synonym ('k, 'v) Trie = "('k, 'v) alist"

definition Trie_empty :: "('k, 'v) Trie" where
  "Trie_empty = DAList.empty"

definition Trie_get :: "('k, 'v) Trie \<Rightarrow> 'k \<Rightarrow> 'v option" where
  "Trie_get t k = DAList.lookup t k"

definition Trie_put :: "('k, 'v) Trie \<Rightarrow> 'k \<Rightarrow> 'v \<Rightarrow> ('k, 'v) Trie" where
  "Trie_put t k v = DAList.update k v t"

definition Trie_iter :: "('k, 'v) Trie \<Rightarrow> ('k \<times> 'v) list" where
  "Trie_iter t = DAList.impl_of t"

text \<open>
  \<^verbatim>\<open>Text.toLowerCase\<close> belongs to the base library, not to this repository, and
  its table of the Unicode letters is not modelled: \<open>searchAttractions\<close> takes the
  function as its first argument \<open>toLowerCase\<close>, and what is proved of the search
  is proved for every function in that place.

  For running the search on sample texts, \<open>toLowerCase_sample\<close> is one such
  function on UTF-8 texts: it lower-cases the 26 ASCII capitals and the five other
  capitals of the Bosnian alphabet (two bytes each, the letters C with caron, C with
  acute, D with stroke, S with caron and Z with caron) and leaves every other byte as
  it is. On a text with no other capital letter it gives what the library gives.
\<close>

definition lowerAscii :: "char \<Rightarrow> char" where
  "lowerAscii c =
     (case map_of (zip ''ABCDEFGHIJKLMNOPQRSTUVWXYZ'' ''abcdefghijklmnopqrstuvwxyz'') c of
        Some l \<Rightarrow> l | None \<Rightarrow> c)"

definition lowerTwoBytes :: "((char \<times> char) \<times> (char \<times> char)) list" where
  "lowerTwoBytes =
     [((CHR 0xC4, CHR 0x8C), (CHR 0xC4, CHR 0x8D)),
      ((CHR 0xC4, CHR 0x86), (CHR 0xC4, CHR 0x87)),
      ((CHR 0xC4, CHR 0x90), (CHR 0xC4, CHR 0x91)),
      ((CHR 0xC5, CHR 0xA0), (CHR 0xC5, CHR 0xA1)),
      ((CHR 0xC5, CHR 0xBD), (CHR 0xC5, CHR 0xBE))]"

fun toLowerCase_sample :: "Text \<Rightarrow> Text" where
  "toLowerCase_sample [] = []"
| "toLowerCase_sample [c] = [lowerAscii c]"
| "toLowerCase_sample (c # d # cs) =
     (case map_of lowerTwoBytes (c, d) of
        Some (c', d') \<Rightarrow> c' # d' # toLowerCase_sample cs
      | None \<Rightarrow> lowerAscii c # toLowerCase_sample (d # cs))"

text \<open>
  \<^verbatim>\<open>Text.contains(t, #text p)\<close>: the pattern is tried at every position of the
  text, from the left; the empty pattern matches at once.
\<close>

fun Text_contains :: "Text \<Rightarrow> Text \<Rightarrow> bool" where
  "Text_contains [] p = (p = [])"
| "Text_contains (c # cs) p = (prefix p (c # cs) \<or> Text_contains cs p)"

text \<open>
  \<^verbatim>\<open>Nat.toText\<close> prints decimal digits; in the base library it is
  \<^verbatim>\<open>Int.toText\<close>, which prints a minus sign before a negative number.
\<close>

definition digit :: "nat \<Rightarrow> char" where
  "digit d = ''0123456789'' ! d"

fun Nat_toText :: "nat \<Rightarrow> Text" where
  "Nat_toText n = (if n < 10 then [digit n] else Nat_toText (n div 10) @ [digit (n mod 10)])"

declare Nat_toText.simps [simp del]

definition Int_toText :: "int \<Rightarrow> Text" where
  "Int_toText i = (if i < 0 then CHR ''-'' # Nat_toText (nat (- i)) else Nat_toText (nat i))"

text \<open>The operator \<^verbatim>\<open>%\<close> on \<^verbatim>\<open>Int\<close> truncates towards zero; \<^verbatim>\<open>Int.abs\<close> gives a \<^verbatim>\<open>Nat\<close>.\<close>

definition Int_rem :: "int \<Rightarrow> int \<Rightarrow> int" where
  "Int_rem a b = sgn a * (\<bar>a\<bar> mod \<bar>b\<bar>)"

definition Int_abs :: "int \<Rightarrow> nat" where
  "Int_abs i = nat \<bar>i\<bar>"

subsection \<open>Records of the data model\<close>

record Location =
  latitude :: Float
  longitude :: Float

record Attraction =
  id_a :: AttractionId
  name :: Text
  description :: Text
  location :: Location
  category :: Text
  imageUrl :: Text
  audioUrl :: Text
  rating_a :: Float
  price :: nat
  languages :: "Text list"
  tags :: "Text list"
  createdAt_a :: Time
  updatedAt :: Time

record Review =
  id_r :: ReviewId
  attractionId_r :: AttractionId
  userId_r :: UserId
  rating_r :: nat
  comment :: Text
  photos :: "Text list"
  createdAt_r :: Time

record UserProfile =
  id_u :: UserId
  username :: Text
  email :: Text
  preferredLanguage :: Text
  visitedAttractions :: "AttractionId list"
  favoriteAttractions :: "AttractionId list"
  totalSpent :: nat
  createdAt_u :: Time

record PaymentTransaction =
  id_p :: PaymentId
  userId_p :: UserId
  attractionId_p :: AttractionId
  amount :: nat
  currency :: Text
  paymentMethod :: Text
  status :: Text
  qrCodeData :: Text
  createdAt_p :: Time

subsection \<open>The actor's state and the environment of a call\<close>

record State =
  attractions :: "(AttractionId, Attraction) Trie"
  reviews :: "(ReviewId, Review) Trie"
  users :: "(UserId, UserProfile) Trie"
  payments :: "(PaymentId, PaymentTransaction) Trie"
  nextAttractionId :: AttractionId
  nextReviewId :: ReviewId

text \<open>
  What a call reads from the platform: \<open>self\<close> is \<^verbatim>\<open>Principal.fromActor(this)\<close>,
  \<open>now\<close> is \<^verbatim>\<open>Time.now()\<close> (constant during one call), \<open>caller\<close> is the principal
  of the remote caller, which no function of the actor binds or reads.
\<close>

record Env =
  self :: Principal
  caller :: Principal
  now :: Time

text \<open>The declared initial values of the six state variables (lines 79 to 85).\<close>

definition declared :: State where
  "declared = \<lparr> attractions = Trie_empty, reviews = Trie_empty, users = Trie_empty,
                payments = Trie_empty, nextAttractionId = 0, nextReviewId = 0 \<rparr>"

subsection \<open>Seeding\<close>

text \<open>The five entries of the array \<^verbatim>\<open>sampleAttractions\<close>, in its order.\<close>

definition sample_0 :: "Env \<Rightarrow> Attraction" where
  "sample_0 env =
     \<lparr> id_a = 0, name = ''Panonsko Jezero'',
       description = ''The famous salt lake in the heart of Tuzla, perfect for swimming and relaxation.'',
       location = \<lparr> latitude = Float_lit 44.5387, longitude = Float_lit 18.6766 \<rparr>,
       category = ''natural'', imageUrl = ''/images/panonsko-jezero.jpg'',
       audioUrl = ''/audio/panonsko-jezero-guide.mp3'', rating_a = Float_lit 4.8, price = 500,
       languages = [''en'', ''bs'', ''de''],
       tags = [''lake'', ''swimming'', ''salt-water'', ''family''],
       createdAt_a = now env, updatedAt = now env \<rparr>"

definition sample_1 :: "Env \<Rightarrow> Attraction" where
  "sample_1 env =
     \<lparr> id_a = 1, name = ''Gradska Tr'' @ [CHR 0xC5, CHR 0xBE] @ ''nica Tuzla'',
       description = ''Historic city market offering local produce and traditional crafts.'',
       location = \<lparr> latitude = Float_lit 44.5417, longitude = Float_lit 18.6739 \<rparr>,
       category = ''historical'', imageUrl = ''/images/trznica.jpg'',
       audioUrl = ''/audio/trznica-guide.mp3'', rating_a = Float_lit 4.5, price = 0,
       languages = [''en'', ''bs'', ''de'', ''hr''],
       tags = [''market'', ''shopping'', ''local'', ''historical''],
       createdAt_a = now env, updatedAt = now env \<rparr>"

definition sample_2 :: "Env \<Rightarrow> Attraction" where
  "sample_2 env =
     \<lparr> id_a = 2, name = ''Muzej Soli Tuzla'',
       description = ''Salt Museum showcasing Tuzla'' @ [CHR 0x27] @ ''s rich salt mining history.'',
       location = \<lparr> latitude = Float_lit 44.5400, longitude = Float_lit 18.6750 \<rparr>,
       category = ''museum'', imageUrl = ''/images/muzej-soli.jpg'',
       audioUrl = ''/audio/muzej-soli-guide.mp3'', rating_a = Float_lit 4.7, price = 300,
       languages = [''en'', ''bs'', ''de'', ''hr'', ''sr''],
       tags = [''museum'', ''history'', ''salt'', ''educational''],
       createdAt_a = now env, updatedAt = now env \<rparr>"

definition sample_3 :: "Env \<Rightarrow> Attraction" where
  "sample_3 env =
     \<lparr> id_a = 3, name = ''Kapija Gradu'' @ [CHR 0xC5, CHR 0xA1] @ ''a'',
       description = ''Historic gate and cultural landmark in the old town.'',
       location = \<lparr> latitude = Float_lit 44.5420, longitude = Float_lit 18.6720 \<rparr>,
       category = ''historical'', imageUrl = ''/images/kapija-gradusa.jpg'',
       audioUrl = ''/audio/kapija-gradusa-guide.mp3'', rating_a = Float_lit 4.3, price = 0,
       languages = [''en'', ''bs'', ''de''],
       tags = [''historical'', ''gate'', ''architecture'', ''photo-spot''],
       createdAt_a = now env, updatedAt = now env \<rparr>"

definition sample_4 :: "Env \<Rightarrow> Attraction" where
  "sample_4 env =
     \<lparr> id_a = 4, name = ''Restoran Dvori'' @ [CHR 0xC5, CHR 0xA1] @ ''te'',
       description = ''Traditional Bosnian restaurant with authentic local cuisine.'',
       location = \<lparr> latitude = Float_lit 44.5395, longitude = Float_lit 18.6745 \<rparr>,
       category = ''restaurant'', imageUrl = ''/images/dvoriste.jpg'',
       audioUrl = ''/audio/dvoriste-guide.mp3'', rating_a = Float_lit 4.6, price = 2500,
       languages = [''en'', ''bs'', ''de'', ''hr''],
       tags = [''restaurant'', ''traditional'', ''bosnian'', ''dining''],
       createdAt_a = now env, updatedAt = now env \<rparr>"

definition sampleAttractions :: "Env \<Rightarrow> Attraction list" where
  "sampleAttractions env = [sample_0 env, sample_1 env, sample_2 env, sample_3 env, sample_4 env]"

text \<open>The loop of \<^verbatim>\<open>initSampleData\<close>: one put and one increment per sample.\<close>

definition initSampleData_step :: "Attraction \<Rightarrow> State \<Rightarrow> State" where
  "initSampleData_step attraction s =
     s\<lparr> attractions := Trie_put (attractions s) (id_a attraction) attraction,
        nextAttractionId := nextAttractionId s + 1 \<rparr>"

definition initSampleData :: "Env \<Rightarrow> State \<Rightarrow> State" where
  "initSampleData env s = fold initSampleData_step (sampleAttractions env) s"

text \<open>
  The statements of the actor body that follow the declarations (lines 412 to 416):
  the seed call and a print. They run when the actor is installed and, being part of
  the body, again whenever a new process image starts.
\<close>

definition actorBody :: "Env \<Rightarrow> State \<Rightarrow> State" where
  "actorBody env s = initSampleData env s"

text \<open>The state after the first deployment: the declarations, then the body.\<close>

definition init :: "Env \<Rightarrow> State" where
  "init env = actorBody env declared"

subsection \<open>Upgrade hooks\<close>

text \<open>
  \<^verbatim>\<open>preupgrade\<close> only prints. An upgrade keeps the variables declared
  \<^verbatim>\<open>stable\<close> and nothing else; none of the six variables is declared so. The
  new process image therefore starts from the declared initial values and runs the
  statements of the actor body, the seed call among them (\<open>replaceImage\<close>);
  \<^verbatim>\<open>postupgrade\<close> then calls \<^verbatim>\<open>initSampleData\<close> once more and prints. The
  whole upgrade is one execution, so \<^verbatim>\<open>Time.now()\<close> is the same throughout.
\<close>

definition preupgrade :: "State \<Rightarrow> State" where
  "preupgrade s = s"

definition replaceImage :: "Env \<Rightarrow> State \<Rightarrow> State" where
  "replaceImage env s = actorBody env declared"

definition postupgrade :: "Env \<Rightarrow> State \<Rightarrow> State" where
  "postupgrade env s = initSampleData env s"

definition upgrade :: "Env \<Rightarrow> State \<Rightarrow> State" where
  "upgrade env s = postupgrade env (replaceImage env (preupgrade s))"

subsection \<open>Queries\<close>

definition getAttraction :: "State \<Rightarrow> AttractionId \<Rightarrow> Attraction option" where
  "getAttraction s i = Trie_get (attractions s) i"

text \<open>The three filters of \<^verbatim>\<open>searchAttractions\<close>, in the order of the loop body.\<close>

definition matchesQuery :: "(Text \<Rightarrow> Text) \<Rightarrow> Text \<Rightarrow> Attraction \<Rightarrow> bool" where
  "matchesQuery toLowerCase lowerQuery attraction =
     (Text_contains (toLowerCase (name attraction)) lowerQuery
      \<or> Text_contains (toLowerCase (description attraction)) lowerQuery
      \<or> list_ex (\<lambda>tag. Text_contains (toLowerCase tag) lowerQuery) (tags attraction))"

definition matchesCategory :: "Text option \<Rightarrow> Attraction \<Rightarrow> bool" where
  "matchesCategory cat attraction =
     (case cat of Some c \<Rightarrow> category attraction = c | None \<Rightarrow> True)"

definition matchesLanguage :: "Text option \<Rightarrow> Attraction \<Rightarrow> bool" where
  "matchesLanguage language attraction =
     (case language of Some lang \<Rightarrow> list_ex (\<lambda>l. l = lang) (languages attraction)
      | None \<Rightarrow> True)"

definition searchAttractions ::
  "(Text \<Rightarrow> Text) \<Rightarrow> State \<Rightarrow> Text \<Rightarrow> Text option \<Rightarrow> Text option \<Rightarrow> Attraction list" where
  "searchAttractions toLowerCase s query cat language =
     (let lowerQuery = toLowerCase query in
      fold (\<lambda>(i, attraction) results.
              if matchesQuery toLowerCase lowerQuery attraction \<and> matchesCategory cat attraction
                 \<and> matchesLanguage language attraction
              then attraction # results else results)
           (Trie_iter (attractions s)) [])"

definition getReviewsInternal :: "State \<Rightarrow> AttractionId \<Rightarrow> Review list" where
  "getReviewsInternal s attractionId =
     fold (\<lambda>(i, review) result.
             if attractionId_r review = attractionId then review # result else result)
          (Trie_iter (reviews s)) []"

definition getUserProfile :: "Env \<Rightarrow> State \<Rightarrow> UserProfile option" where
  "getUserProfile env s = Trie_get (users s) (self env)"

subsection \<open>Adding a review\<close>

text \<open>Lines 268 to 281: take the next id, build the review, store it.\<close>

definition newReview :: "Env \<Rightarrow> State \<Rightarrow> AttractionId \<Rightarrow> nat \<Rightarrow> Text \<Rightarrow> Text list \<Rightarrow> Review" where
  "newReview env s attractionId rating comment' photos' =
     \<lparr> id_r = nextReviewId s, attractionId_r = attractionId, userId_r = self env,
       rating_r = rating, comment = comment', photos = photos', createdAt_r = now env \<rparr>"

definition storeReview :: "Env \<Rightarrow> AttractionId \<Rightarrow> nat \<Rightarrow> Text \<Rightarrow> Text list \<Rightarrow> State \<Rightarrow> State" where
  "storeReview env attractionId rating comment' photos' s =
     s\<lparr> nextReviewId := nextReviewId s + 1,
        reviews := Trie_put (reviews s) (nextReviewId s)
                     (newReview env s attractionId rating comment' photos') \<rparr>"

text \<open>Lines 284 to 286: the rescan and the quotient.\<close>

definition newRating :: "State \<Rightarrow> AttractionId \<Rightarrow> Float" where
  "newRating s attractionId =
     (let allReviews = getReviewsInternal s attractionId;
          totalRating = foldl (\<lambda>acc r. acc + rating_r r) 0 allReviews
      in Float_div (Float_fromInt (int totalRating)) (Float_fromInt (int (length allReviews))))"

definition addReview ::
  "Env \<Rightarrow> AttractionId \<Rightarrow> nat \<Rightarrow> Text \<Rightarrow> Text list \<Rightarrow> State \<Rightarrow> (Text + ReviewId) \<times> State" where
  "addReview env attractionId rating comment' photos' s =
     (if rating < 1 \<or> rating > 5 then (Inl ''Rating must be between 1 and 5'', s)
      else case Trie_get (attractions s) attractionId of
        None \<Rightarrow> (Inl ''Attraction not found'', s)
      | Some attraction \<Rightarrow>
          (let reviewId = nextReviewId s;
               s' = storeReview env attractionId rating comment' photos' s;
               updatedAttraction =
                 attraction\<lparr> rating_a := newRating s' attractionId, updatedAt := now env \<rparr>
           in (Inr reviewId,
               s'\<lparr> attractions := Trie_put (attractions s') attractionId updatedAttraction \<rparr>)))"

subsection \<open>Payments\<close>

definition generatePaymentId :: "Env \<Rightarrow> PaymentId" where
  "generatePaymentId env =
     (let timestamp = now env;
          random = Int_abs (Int_rem (now env) 10000)
      in ''tx_'' @ (Int_toText timestamp @ Nat_toText random))"

definition generateQRCodeData :: "Text \<Rightarrow> nat \<Rightarrow> Text \<Rightarrow> Text" where
  "generateQRCodeData attractionName amount' currency' =
     (let description' = ''Tuzla Guide - '' @ attractionName;
          amountText = Nat_toText amount'
      in ''nowpayments:'' @ (amountText @ (''-'' @ currency')))"

definition createPayment ::
  "Env \<Rightarrow> AttractionId \<Rightarrow> nat \<Rightarrow> Text \<Rightarrow> Text \<Rightarrow> State \<Rightarrow> (Text + PaymentTransaction) \<times> State" where
  "createPayment env attractionId amount' currency' paymentMethod' s =
     (case Trie_get (attractions s) attractionId of
        None \<Rightarrow> (Inl ''Attraction not found'', s)
      | Some attraction \<Rightarrow>
          (let paymentId = generatePaymentId env;
               qr = generateQRCodeData (name attraction) amount' currency';
               payment = \<lparr> id_p = paymentId, userId_p = self env, attractionId_p = attractionId,
                           amount = amount', currency = currency',
                           paymentMethod = paymentMethod', status = ''pending'',
                           qrCodeData = qr, createdAt_p = now env \<rparr>
           in (Inr payment, s\<lparr> payments := Trie_put (payments s) paymentId payment \<rparr>)))"

definition updatePaymentStatus :: "PaymentId \<Rightarrow> Text \<Rightarrow> State \<Rightarrow> (Text + unit) \<times> State" where
  "updatePaymentStatus paymentId status' s =
     (case Trie_get (payments s) paymentId of
        None \<Rightarrow> (Inl ''Payment not found'', s)
      | Some payment \<Rightarrow>
          (let updatedPayment = payment\<lparr> status := status' \<rparr>
           in (Inr (), s\<lparr> payments := Trie_put (payments s) paymentId updatedPayment \<rparr>)))"

subsection \<open>Profiles\<close>

definition updateUserProfile :: "Env \<Rightarrow> Text \<Rightarrow> Text \<Rightarrow> Text \<Rightarrow> State \<Rightarrow> unit \<times> State" where
  "updateUserProfile env username' email' preferredLanguage' s =
     (let userId = self env;
          profile =
            (case Trie_get (users s) userId of
               None \<Rightarrow> \<lparr> id_u = userId, username = username', email = email',
                         preferredLanguage = preferredLanguage', visitedAttractions = [],
                         favoriteAttractions = [], totalSpent = 0, createdAt_u = now env \<rparr>
             | Some existing \<Rightarrow> existing\<lparr> username := username', email := email',
                                          preferredLanguage := preferredLanguage' \<rparr>)
      in ((), s\<lparr> users := Trie_put (users s) userId profile \<rparr>))"

subsection \<open>The error kinds of the specification\<close>

text \<open>
  The actor reports a failure as \<^verbatim>\<open>#err\<close> of a message. The specification names
  two kinds of failure: ValidationError is the message about the rating,
  NotFoundError the message that the attraction or the payment was not found.
\<close>

datatype ErrorKind = ValidationError | NotFoundError

definition errorKind :: "Text \<Rightarrow> ErrorKind option" where
  "errorKind msg =
     (if msg = ''Rating must be between 1 and 5'' then Some ValidationError
      else if msg = ''Attraction not found'' then Some NotFoundError
      else if msg = ''Payment not found'' then Some NotFoundError
      else None)"

definition failsWith :: "Text + 'a \<Rightarrow> ErrorKind \<Rightarrow> bool" where
  "failsWith r k = (case r of Inl msg \<Rightarrow> errorKind msg = Some k | Inr x \<Rightarrow> False)"

subsection \<open>The mean of the specification\<close>

text \<open>
  The keys of a store whose record satisfies a predicate, and, in the words of the
  specification, the arithmetic mean of the integer ratings of all stored reviews
  whose attractionId matches: the sum of these ratings divided by their number, as a
  Float. The actor computes the rating with \<open>newRating\<close>; \<open>spec_meanRating\<close>
  is what it is compared with.

  \<open>freshIds\<close> says that every stored review id is below \<open>nextReviewId\<close>, so
  that the next review takes the place of no stored one. It holds in every reachable
  state.
\<close>

definition keysFor :: "('k, 'v) Trie \<Rightarrow> ('v \<Rightarrow> bool) \<Rightarrow> 'k set" where
  "keysFor t P = {k. \<exists>v. Trie_get t k = Some v \<and> P v}"

definition spec_ratingSum :: "State \<Rightarrow> AttractionId \<Rightarrow> nat" where
  "spec_ratingSum s attractionId =
     (\<Sum>k \<in> keysFor (reviews s) (\<lambda>r. attractionId_r r = attractionId).
         rating_r (the (Trie_get (reviews s) k)))"

definition spec_ratingCount :: "State \<Rightarrow> AttractionId \<Rightarrow> nat" where
  "spec_ratingCount s attractionId =
     card (keysFor (reviews s) (\<lambda>r. attractionId_r r = attractionId))"

definition spec_meanRating :: "State \<Rightarrow> AttractionId \<Rightarrow> Float" where
  "spec_meanRating s attractionId =
     Float_div (Float_fromInt (int (spec_ratingSum s attractionId)))
               (Float_fromInt (int (spec_ratingCount s attractionId)))"

definition freshIds :: "State \<Rightarrow> bool" where
  "freshIds s = list_all (\<lambda>(k, r). k < nextReviewId s) (Trie_iter (reviews s))"

subsection \<open>Reachable states and sample runs\<close>

text \<open>
  The states the service can be in: the state after the first deployment, and every
  state one of the four updating calls or an upgrade produces from a reachable state.
\<close>

inductive reachable :: "State \<Rightarrow> bool" where
  reach_init: "reachable (init env)"
| reach_addReview: "reachable s \<Longrightarrow> reachable (snd (addReview env a r c ps s))"
| reach_createPayment: "reachable s \<Longrightarrow> reachable (snd (createPayment env a n cur m s))"
| reach_updatePaymentStatus: "reachable s \<Longrightarrow> reachable (snd (updatePaymentStatus p st s))"
| reach_updateUserProfile: "reachable s \<Longrightarrow> reachable (snd (updateUserProfile env u e l s))"
| reach_upgrade: "reachable s \<Longrightarrow> reachable (upgrade env s)"

text \<open>
  Two calls that reach the same actor: \<open>env0\<close> and \<open>env1\<close> have the same \<open>self\<close>
  and different remote callers; \<open>env1\<close> is a later moment, \<open>env0'\<close> is another
  caller at the moment of \<open>env0\<close>.
\<close>

definition env0 :: Env where
  "env0 = \<lparr> self = ''ryjl3-tyaaa-aaaaa-aaaba-cai'', caller = ''2vxsx-fae'',
            now = 1700000000000000000 \<rparr>"

definition env1 :: Env where
  "env1 = \<lparr> self = ''ryjl3-tyaaa-aaaaa-aaaba-cai'', caller = ''un4fu-tqaaa-aaaab-qadjq-cai'',
            now = 1700000000500000000 \<rparr>"

definition env0' :: Env where
  "env0' = env0\<lparr> caller := ''un4fu-tqaaa-aaaab-qadjq-cai'' \<rparr>"

text \<open>The state after the first deployment and one review of attraction 0.\<close>

definition reviewed :: State where
  "reviewed = snd (addReview env0 0 5 ''Great lake'' [] (init env0))"

text \<open>The state after the first deployment and one payment for attraction 2.\<close>

definition paid :: State where
  "paid = snd (createPayment env0 2 300 ''EUR'' ''ICP'' (init env0))"

text \<open>The transaction that call returns.\<close>

definition payment0 :: PaymentTransaction where
  "payment0 = \<lparr> id_p = generatePaymentId env0, userId_p = self env0, attractionId_p = 2,
                 amount = 300, currency = ''EUR'', paymentMethod = ''ICP'',
                 status = ''pending'', qrCodeData = ''nowpayments:300-EUR'',
                 createdAt_p = now env0 \<rparr>"

text \<open>The transaction the same call returns for attraction 0.\<close>

definition paymentLake :: PaymentTransaction where
  "paymentLake = \<lparr> id_p = generatePaymentId env0, userId_p = self env0, attractionId_p = 0,
                    amount = 300, currency = ''EUR'', paymentMethod = ''ICP'',
                    status = ''pending'', qrCodeData = ''nowpayments:300-EUR'',
                    createdAt_p = now env0 \<rparr>"

text \<open>
  The transaction a second call returns, made at the moment of the first by another
  caller, for attraction 0 and the amount 500.
\<close>

definition payment1 :: PaymentTransaction where
  "payment1 = \<lparr> id_p = generatePaymentId env0', userId_p = self env0', attractionId_p = 0,
                 amount = 500, currency = ''EUR'', paymentMethod = ''ICP'',
                 status = ''pending'', qrCodeData = ''nowpayments:500-EUR'',
                 createdAt_p = now env0' \<rparr>"

text \<open>The state after the first deployment and one profile update.\<close>

definition profiled :: State where
  "profiled = snd (updateUserProfile env0 ''amra'' ''amra@example.org'' ''bs'' (init env0))"

text \<open>
  A run of \<open>addReview\<close> calls on one attraction, each call with its own environment,
  rating, comment and photos; the results of the calls are dropped.
\<close>

fun addReviews :: "AttractionId \<Rightarrow> (Env \<times> nat \<times> Text \<times> Text list) list \<Rightarrow> State \<Rightarrow> State" where
  "addReviews aid [] s = s"
| "addReviews aid ((env, r, c, ph) # calls) s
     = addReviews aid calls (snd (addReview env aid r c ph s))"

text \<open>The state after the first deployment and two reviews of attraction 0.\<close>

definition reviewedTwice :: State where
  "reviewedTwice
     = addReviews 0 [(env0, 5, ''Great lake'', []), (env1, 2, ''Crowded'', [])] (init env0)"

section \<open>Facts about the model\<close>

subsection \<open>The trie\<close>

lemma Trie_get_empty: "Trie_get Trie_empty k = None"
  by (simp add: Trie_get_def Trie_empty_def)

lemma Trie_get_put: "Trie_get (Trie_put t k v) k' = (if k = k' then Some v else Trie_get t k')"
  by (simp add: Trie_get_def Trie_put_def DAList.lookup_update)

lemma Trie_iter_distinct: "distinct (map fst (Trie_iter t))"
  by (simp add: Trie_iter_def)

lemma Trie_get_iter: "Trie_get t k = map_of (Trie_iter t) k"
  by (simp add: Trie_get_def Trie_iter_def DAList.lookup.rep_eq)

lemma Trie_iter_mem: "(k, v) \<in> set (Trie_iter t) \<longleftrightarrow> Trie_get t k = Some v"
  by (simp add: Trie_get_iter Trie_iter_distinct)

lemma Trie_iter_empty: "Trie_iter Trie_empty = []"
  by (simp add: Trie_iter_def Trie_empty_def DAList.empty.rep_eq)

lemma Trie_iter_put:
  "Trie_iter (Trie_put t k v) = AList.update k v (Trie_iter t)"
  by (simp add: Trie_iter_def Trie_put_def DAList.update.rep_eq)

subsection \<open>Loops that push the matching entries\<close>

lemma fold_push_filter:
  "fold (\<lambda>(i, x) acc. if P x then x # acc else acc) xs acc
   = rev (map snd (filter (\<lambda>(i, x). P x) xs)) @ acc"
  by (induction xs arbitrary: acc) (auto split: prod.splits)

lemma foldl_add_sum_list:
  "foldl (\<lambda>acc r. acc + f r) (a::nat) xs = a + sum_list (map f xs)"
  by (induction xs arbitrary: a) simp_all

lemma filter_keys:
  "set (map fst (filter (\<lambda>(i, x). P x) (Trie_iter t))) = keysFor t P"
  by (auto simp: keysFor_def Trie_iter_mem[symmetric] image_iff)

lemma distinct_filter_keys: "distinct (map fst (filter (\<lambda>(i, x). P x) (Trie_iter t)))"
  by (simp add: distinct_map_filter Trie_iter_distinct)

lemma map_snd_as_get:
  "map (f \<circ> snd) (filter (\<lambda>(i, x). P x) (Trie_iter t))
   = map (\<lambda>k. f (the (Trie_get t k))) (map fst (filter (\<lambda>(i, x). P x) (Trie_iter t)))"
  by (auto simp: Trie_iter_mem)

lemma sum_list_iter:
  "sum_list (map (f \<circ> snd) (filter (\<lambda>(i, x). P x) (Trie_iter t)))
   = (\<Sum>k \<in> keysFor t P. f (the (Trie_get t k)))"
  unfolding map_snd_as_get
  by (simp only: sum_list_distinct_conv_sum_set[OF distinct_filter_keys] filter_keys)

lemma length_iter:
  "length (filter (\<lambda>(i, x). P x) (Trie_iter t)) = card (keysFor t P)"
proof -
  have "card (set (map fst (filter (\<lambda>(i, x). P x) (Trie_iter t))))
        = length (map fst (filter (\<lambda>(i, x). P x) (Trie_iter t)))"
    by (rule distinct_card[OF distinct_filter_keys])
  then show ?thesis by (simp only: filter_keys length_map)
qed

lemma getReviewsInternal_eq:
  "getReviewsInternal s aid
   = rev (map snd (filter (\<lambda>(i, r). attractionId_r r = aid) (Trie_iter (reviews s))))"
  by (simp add: getReviewsInternal_def fold_push_filter)

subsection \<open>Substrings\<close>

lemma Text_contains_iff: "Text_contains t p \<longleftrightarrow> (\<exists>u v. t = u @ p @ v)"
proof (induction t)
  case Nil
  then show ?case by auto
next
  case (Cons c cs)
  show ?case
  proof
    assume "Text_contains (c # cs) p"
    then consider "prefix p (c # cs)" | "Text_contains cs p" by auto
    then show "\<exists>u v. c # cs = u @ p @ v"
    proof cases
      case 1
      then obtain v where "c # cs = p @ v" by (auto simp: prefix_def)
      then have "c # cs = [] @ p @ v" by simp
      then show ?thesis by blast
    next
      case 2
      with Cons obtain u v where "cs = u @ p @ v" by blast
      then have "c # cs = (c # u) @ p @ v" by simp
      then show ?thesis by blast
    qed
  next
    assume "\<exists>u v. c # cs = u @ p @ v"
    then obtain u v where uv: "c # cs = u @ p @ v" by blast
    show "Text_contains (c # cs) p"
    proof (cases u)
      case Nil
      with uv have "prefix p (c # cs)" by (simp add: prefix_def)
      then show ?thesis by simp
    next
      case (Cons d u')
      with uv have "cs = u' @ p @ v" by simp
      with Cons.IH show ?thesis by auto
    qed
  qed
qed

subsection \<open>The seeded state\<close>

lemma sample_ids:
  "id_a (sample_0 env) = 0" "id_a (sample_1 env) = 1" "id_a (sample_2 env) = 2"
  "id_a (sample_3 env) = 3" "id_a (sample_4 env) = 4"
  by (simp_all add: sample_0_def sample_1_def sample_2_def sample_3_def sample_4_def)

lemma initSampleData_declared:
  "initSampleData env declared =
     \<lparr> attractions = Trie_put (Trie_put (Trie_put (Trie_put (Trie_put Trie_empty
                        0 (sample_0 env)) 1 (sample_1 env)) 2 (sample_2 env))
                        3 (sample_3 env)) 4 (sample_4 env),
       reviews = Trie_empty, users = Trie_empty, payments = Trie_empty,
       nextAttractionId = 5, nextReviewId = 0 \<rparr>"
  by (simp add: initSampleData_def sampleAttractions_def initSampleData_step_def
      declared_def sample_ids)

lemma init_seeded: "init env = initSampleData env declared"
  by (simp add: init_def actorBody_def)

lemma init_attractions_iter:
  "Trie_iter (attractions (init env))
   = [(0, sample_0 env), (1, sample_1 env), (2, sample_2 env), (3, sample_3 env),
      (4, sample_4 env)]"
  by (simp add: init_seeded initSampleData_declared Trie_iter_put Trie_iter_empty)

lemma init_get:
  "Trie_get (attractions (init env)) 0 = Some (sample_0 env)"
  "Trie_get (attractions (init env)) 2 = Some (sample_2 env)"
  "4 < i \<Longrightarrow> Trie_get (attractions (init env)) i = None"
  by (simp_all add: init_seeded initSampleData_declared Trie_get_put Trie_get_empty)

lemma init_rest:
  "reviews (init env) = Trie_empty" "users (init env) = Trie_empty"
  "payments (init env) = Trie_empty" "nextAttractionId (init env) = 5"
  "nextReviewId (init env) = 0"
  by (simp_all add: init_seeded initSampleData_declared)

lemma reviewed_fst: "fst (addReview env0 0 5 ''Great lake'' [] (init env0)) = Inr 0"
  by (simp add: addReview_def init_get init_rest Let_def)

lemma reviewed_next: "nextReviewId reviewed = 1"
  by (simp add: reviewed_def addReview_def init_get init_rest Let_def storeReview_def)

lemma reviewed_reachable: "reachable reviewed"
  unfolding reviewed_def by (intro reach_addReview reach_init)

lemma qr_300_EUR: "generateQRCodeData nm 300 ''EUR'' = ''nowpayments:300-EUR''"
  by (simp add: generateQRCodeData_def Nat_toText.simps digit_def)

lemma paid_payment:
  "fst (createPayment env0 2 300 ''EUR'' ''ICP'' (init env0)) = Inr payment0"
  "Trie_get (payments paid) (generatePaymentId env0) = Some payment0"
  "attractions paid = attractions (init env0)"
  "payments paid = Trie_put Trie_empty (generatePaymentId env0) payment0"
  by (simp_all add: paid_def payment0_def createPayment_def init_get init_rest Let_def
      Trie_get_put qr_300_EUR)

lemma profiled_profile:
  "Trie_get (users (init env0)) (self env0) = None"
  "Trie_get (payments (init env0)) ''tx_0'' = None"
  by (simp_all add: init_rest Trie_get_empty)

subsection \<open>A stored key is iterated once\<close>

lemma filter_key_absent:
  "k \<notin> fst ` set xs \<Longrightarrow> filter (\<lambda>(k', x). k' = k) xs = []"
  by (induction xs) auto

lemma distinct_key_count:
  "distinct (map fst xs) \<Longrightarrow> map_of xs k = Some v
   \<Longrightarrow> length (filter (\<lambda>(k', x). k' = k) xs) = 1"
  by (induction xs) (auto simp: filter_key_absent split: if_splits)

lemma Trie_key_once:
  "Trie_get t k = Some v \<Longrightarrow> length (filter (\<lambda>(k', x). k' = k) (Trie_iter t)) = 1"
  using distinct_key_count[OF Trie_iter_distinct, of t k v] by (simp add: Trie_get_iter)

subsection \<open>One profile update\<close>

lemma updateUserProfile_users:
  "Trie_get (users (snd (updateUserProfile env un em pl s))) k
   = (if k = self env
      then Some (case Trie_get (users s) (self env) of
                   None \<Rightarrow> \<lparr> id_u = self env, username = un, email = em,
                             preferredLanguage = pl, visitedAttractions = [],
                             favoriteAttractions = [], totalSpent = 0, createdAt_u = now env \<rparr>
                 | Some ex \<Rightarrow> ex\<lparr> username := un, email := em, preferredLanguage := pl \<rparr>)
      else Trie_get (users s) k)"
  by (simp add: updateUserProfile_def Let_def Trie_get_put)

lemma updateUserProfile_rest:
  "snd (updateUserProfile env un em pl s)
   = s\<lparr> users := users (snd (updateUserProfile env un em pl s)) \<rparr>"
  by (simp add: updateUserProfile_def Let_def)

lemma updateUserProfile_once:
  "length (filter (\<lambda>(k, pr). k = self env)
             (Trie_iter (users (snd (updateUserProfile env un em pl s))))) = 1"
  by (rule Trie_key_once [where v = "the (Trie_get (users (snd (updateUserProfile env un em pl s)))
                                             (self env))"])
     (simp add: updateUserProfile_users)

lemma updateUserProfile_twice:
  assumes same: "self env2 = self env"
  shows "\<exists>p1 p2.
           Trie_get (users (snd (updateUserProfile env un em pl s))) (self env) = Some p1
           \<and> Trie_get (users (snd (updateUserProfile env2 un2 em2 pl2
                                     (snd (updateUserProfile env un em pl s))))) (self env)
               = Some p2
           \<and> username p2 = un2 \<and> createdAt_u p2 = createdAt_u p1
           \<and> (Trie_get (users s) (self env) = None \<longrightarrow> createdAt_u p2 = now env)
           \<and> length (filter (\<lambda>(k, pr). k = self env)
                       (Trie_iter (users (snd (updateUserProfile env2 un2 em2 pl2
                          (snd (updateUserProfile env un em pl s))))))) = 1"
  using updateUserProfile_once [of env2 un2 em2 pl2 "snd (updateUserProfile env un em pl s)"]
  by (cases "Trie_get (users s) (self env)") (simp_all add: updateUserProfile_users same)

subsection \<open>The rescan of \<open>addReview\<close>\<close>

lemma spec_ratingSum_list:
  "spec_ratingSum s aid = sum_list (map rating_r (getReviewsInternal s aid))"
  using sum_list_iter[of rating_r "\<lambda>r. attractionId_r r = aid" "reviews s"]
  by (simp add: spec_ratingSum_def getReviewsInternal_eq rev_map[symmetric] comp_def)

lemma spec_ratingCount_list:
  "spec_ratingCount s aid = length (getReviewsInternal s aid)"
  by (simp add: spec_ratingCount_def getReviewsInternal_eq length_iter)

lemma newRating_mean: "newRating s aid = spec_meanRating s aid"
  by (simp add: newRating_def spec_meanRating_def Let_def foldl_add_sum_list
      spec_ratingSum_list spec_ratingCount_list)

lemma addReview_success:
  assumes "1 \<le> r" and "r \<le> 5" and "Trie_get (attractions s) aid = Some a"
  shows "snd (addReview env aid r c ph s)
         = (storeReview env aid r c ph s)
             \<lparr> attractions := Trie_put (attractions s) aid
                 (a\<lparr> rating_a := newRating (storeReview env aid r c ph s) aid,
                    updatedAt := now env \<rparr>) \<rparr>"
    and "fst (addReview env aid r c ph s) = Inr (nextReviewId s)"
  using assms by (simp_all add: addReview_def Let_def storeReview_def)

lemma addReview_Inr:
  assumes "fst (addReview env aid r c ph s) = Inr i"
  shows "1 \<le> r \<and> r \<le> 5 \<and> (\<exists>a. Trie_get (attractions s) aid = Some a)"
  using assms by (auto simp: addReview_def Let_def split: if_splits option.splits)

lemma addReview_step:
  assumes "1 \<le> r" and "r \<le> 5" and "Trie_get (attractions s) aid = Some a"
  shows "Trie_get (attractions (snd (addReview env aid r c ph s))) aid
             = Some (a\<lparr> rating_a := spec_meanRating (snd (addReview env aid r c ph s)) aid,
                        updatedAt := now env \<rparr>)"
proof -
  let ?s1 = "storeReview env aid r c ph s"
  let ?s' = "snd (addReview env aid r c ph s)"
  note s' = addReview_success(1) [OF assms, of env c ph]
  have "reviews ?s' = reviews ?s1" by (simp add: s')
  then have mean: "spec_meanRating ?s' aid = newRating ?s1 aid"
    by (simp add: newRating_mean spec_meanRating_def spec_ratingSum_def spec_ratingCount_def)
  show ?thesis unfolding mean by (simp add: s' Trie_get_put)
qed

lemma addReviews_mean:
  assumes "calls \<noteq> []"
      and "list_all (\<lambda>(env, r, c, ph). 1 \<le> r \<and> r \<le> 5) calls"
      and "Trie_get (attractions s) aid = Some a"
  shows "\<exists>a'. Trie_get (attractions (addReviews aid calls s)) aid = Some a'
               \<and> rating_a a' = spec_meanRating (addReviews aid calls s) aid"
  using assms
proof (induction calls arbitrary: s a rule: list_nonempty_induct)
  case (single x)
  obtain env r c ph where x: "x = (env, r, c, ph)" by (cases x)
  with single have "1 \<le> r" "r \<le> 5" by simp_all
  from addReview_step [OF this single(2), of env c ph] show ?case
    by (simp add: x)
next
  case (cons x xs)
  obtain env r c ph where x: "x = (env, r, c, ph)" by (cases x)
  with cons.prems have v: "1 \<le> r" "r \<le> 5"
    and rest: "list_all (\<lambda>(env, r, c, ph). 1 \<le> r \<and> r \<le> 5) xs"
    by simp_all
  from addReview_step [OF v cons.prems(2), of env c ph]
  obtain a1 where "Trie_get (attractions (snd (addReview env aid r c ph s))) aid = Some a1"
    by blast
  from cons.IH [OF rest this] show ?case by (simp add: x)
qed

lemma stored_review_rescanned:
  "newReview env s aid r c ph \<in> set (getReviewsInternal (storeReview env aid r c ph s) aid)"
proof -
  let ?s1 = "storeReview env aid r c ph s"
  have "Trie_get (reviews ?s1) (nextReviewId s) = Some (newReview env s aid r c ph)"
    by (simp add: storeReview_def Trie_get_put)
  then have "(nextReviewId s, newReview env s aid r c ph) \<in> set (Trie_iter (reviews ?s1))"
    by (simp add: Trie_iter_mem)
  moreover have "attractionId_r (newReview env s aid r c ph) = aid"
    by (simp add: newReview_def)
  ultimately show ?thesis
    by (force simp: getReviewsInternal_eq)
qed

subsection \<open>Review ids are fresh\<close>

lemma update_fresh: "k \<notin> fst ` set xs \<Longrightarrow> AList.update k v xs = xs @ [(k, v)]"
  by (induction xs) auto

lemma freshIds_next: "freshIds s \<Longrightarrow> nextReviewId s \<notin> fst ` set (Trie_iter (reviews s))"
  by (auto simp: freshIds_def list_all_iff)

lemma freshIds_get: "freshIds s \<Longrightarrow> Trie_get (reviews s) (nextReviewId s) = None"
  using freshIds_next [of s] by (simp add: Trie_get_iter map_of_eq_None_iff)

lemma freshIds_iff: "freshIds s \<longleftrightarrow> (\<forall>k v. Trie_get (reviews s) k = Some v \<longrightarrow> k < nextReviewId s)"
  by (auto simp: freshIds_def list_all_iff Trie_iter_mem[symmetric])

lemma getReviewsInternal_reviews:
  "reviews s = reviews s' \<Longrightarrow> getReviewsInternal s aid = getReviewsInternal s' aid"
  by (simp add: getReviewsInternal_def)

lemma getReviewsInternal_store:
  assumes "freshIds s"
  shows "getReviewsInternal (storeReview env aid r c ph s) aid'
         = (if aid' = aid then [newReview env s aid r c ph] else []) @ getReviewsInternal s aid'"
  using freshIds_next [OF assms]
  by (simp add: getReviewsInternal_eq storeReview_def Trie_iter_put update_fresh newReview_def)

lemma addReview_reviews:
  assumes "1 \<le> r" and "r \<le> 5" and "Trie_get (attractions s) aid = Some a"
  shows "reviews (snd (addReview env aid r c ph s))
         = Trie_put (reviews s) (nextReviewId s) (newReview env s aid r c ph)"
  by (simp add: addReview_success(1) [OF assms] storeReview_def)

lemma addReview_totals:
  assumes "1 \<le> r" and "r \<le> 5" and "Trie_get (attractions s) aid = Some a" and "freshIds s"
  shows "spec_ratingSum (snd (addReview env aid r c ph s)) aid = spec_ratingSum s aid + r"
    and "spec_ratingCount (snd (addReview env aid r c ph s)) aid = spec_ratingCount s aid + 1"
    and "freshIds (snd (addReview env aid r c ph s))"
proof -
  let ?s' = "snd (addReview env aid r c ph s)"
  have "reviews ?s' = reviews (storeReview env aid r c ph s)"
    by (simp add: addReview_success(1) [OF assms(1-3)])
  then have all: "getReviewsInternal ?s' aid = newReview env s aid r c ph # getReviewsInternal s aid"
    using getReviewsInternal_store [OF assms(4), of env aid r c ph aid]
    by (simp add: getReviewsInternal_reviews [of ?s' "storeReview env aid r c ph s"])
  show "spec_ratingSum ?s' aid = spec_ratingSum s aid + r"
    by (simp add: spec_ratingSum_list all newReview_def)
  show "spec_ratingCount ?s' aid = spec_ratingCount s aid + 1"
    by (simp add: spec_ratingCount_list all)
  show "freshIds ?s'"
    using assms(4)
    by (auto simp: freshIds_iff addReview_success(1) [OF assms(1-3)] storeReview_def Trie_get_put
             split: if_splits)
qed

lemma addReview_freshIds: "freshIds s \<Longrightarrow> freshIds (snd (addReview env aid r c ph s))"
proof (cases "1 \<le> r \<and> r \<le> 5 \<and> (\<exists>a. Trie_get (attractions s) aid = Some a)")
  case True
  assume "freshIds s"
  with True show ?thesis by (auto intro: addReview_totals(3))
next
  case False
  assume f: "freshIds s"
  from False have "snd (addReview env aid r c ph s) = s"
    by (auto simp: addReview_def split: option.splits)
  with f show ?thesis by simp
qed

lemma addReviews_totals:
  assumes "list_all (\<lambda>(env, r, c, ph). 1 \<le> r \<and> r \<le> 5) calls"
      and "Trie_get (attractions s) aid = Some a" and "freshIds s"
  shows "spec_ratingSum (addReviews aid calls s) aid
           = spec_ratingSum s aid + sum_list (map (\<lambda>(env, r, c, ph). r) calls)
         \<and> spec_ratingCount (addReviews aid calls s) aid = spec_ratingCount s aid + length calls"
  using assms
proof (induction calls arbitrary: s a)
  case Nil
  then show ?case by simp
next
  case (Cons x xs)
  obtain env r c ph where x: "x = (env, r, c, ph)" by (cases x)
  with Cons.prems have v: "1 \<le> r" "r \<le> 5"
    and rest: "list_all (\<lambda>(env, r, c, ph). 1 \<le> r \<and> r \<le> 5) xs"
    by simp_all
  let ?s1 = "snd (addReview env aid r c ph s)"
  from addReview_step [OF v Cons.prems(2), of env c ph]
  obtain a1 where a1: "Trie_get (attractions ?s1) aid = Some a1" by blast
  note t = addReview_totals [OF v Cons.prems(2,3), of env c ph]
  from Cons.IH [OF rest a1 t(3)] show ?case
    by (simp add: x t(1,2))
qed

subsection \<open>The sample runs with reviews\<close>

lemma reviewed_state:
  "reviewed = (init env0)\<lparr> nextReviewId := 1,
       reviews := Trie_put Trie_empty 0 (newReview env0 (init env0) 0 5 ''Great lake'' []),
       attractions := Trie_put (attractions (init env0)) 0
          ((sample_0 env0)\<lparr> rating_a := Float_div (Float_fromInt 5) (Float_fromInt 1),
              updatedAt := now env0 \<rparr>) \<rparr>"
  unfolding reviewed_def
  by (simp add: addReview_success(1)[OF _ _ init_get(1)] storeReview_def init_rest
       newRating_def getReviewsInternal_def Trie_iter_put Trie_iter_empty newReview_def)

lemma reviewed_attraction:
  "Trie_get (attractions reviewed) 0
   = Some ((sample_0 env0)\<lparr> rating_a := Float_div (Float_fromInt 5) (Float_fromInt 1),
              updatedAt := now env0 \<rparr>)"
  by (simp add: reviewed_state Trie_get_put)

lemma reviewedTwice_rating:
  "map_option rating_a (Trie_get (attractions reviewedTwice) 0)
   = Some (Float_div (Float_fromInt 7) (Float_fromInt 2))"
proof -
  have "reviewedTwice = snd (addReview env1 0 2 ''Crowded'' [] reviewed)"
    by (simp add: reviewedTwice_def reviewed_def)
  also have "\<dots> = (storeReview env1 0 2 ''Crowded'' [] reviewed)
             \<lparr> attractions := Trie_put (attractions reviewed) 0
                 ((sample_0 env0)\<lparr> rating_a := Float_div (Float_fromInt 5) (Float_fromInt 1),
              updatedAt := now env0 \<rparr>
                    \<lparr> rating_a := newRating (storeReview env1 0 2 ''Crowded'' [] reviewed) 0,
                      updatedAt := now env1 \<rparr>) \<rparr>"
    by (rule addReview_success(1) [OF _ _ reviewed_attraction]) simp_all
  finally have twice: "reviewedTwice = (storeReview env1 0 2 ''Crowded'' [] reviewed)
             \<lparr> attractions := Trie_put (attractions reviewed) 0
                 ((sample_0 env0)\<lparr> rating_a := Float_div (Float_fromInt 5) (Float_fromInt 1),
              updatedAt := now env0 \<rparr>
                    \<lparr> rating_a := newRating (storeReview env1 0 2 ''Crowded'' [] reviewed) 0,
                      updatedAt := now env1 \<rparr>) \<rparr>" .
  show ?thesis
    unfolding twice
    by (simp add: reviewed_state Trie_get_put storeReview_def init_rest
       newRating_def getReviewsInternal_def Trie_iter_put Trie_iter_empty newReview_def)
qed

subsection \<open>The loop of \<open>searchAttractions\<close>\<close>

lemma searchAttractions_eq:
  "searchAttractions lower s q cat lang
   = rev (map snd (filter (\<lambda>(i, a). matchesQuery lower (lower q) a \<and> matchesCategory cat a
                                      \<and> matchesLanguage lang a)
                     (Trie_iter (attractions s))))"
  by (simp add: searchAttractions_def Let_def fold_push_filter)

lemma searchAttractions_mem:
  "a \<in> set (searchAttractions lower s q cat lang) \<longleftrightarrow>
     (\<exists>i. Trie_get (attractions s) i = Some a) \<and> matchesQuery lower (lower q) a
     \<and> matchesCategory cat a \<and> matchesLanguage lang a"
  by (force simp: searchAttractions_eq Trie_iter_mem[symmetric])

lemma matchesQuery_iff:
  "matchesQuery lower lq a \<longleftrightarrow>
     ((\<exists>u v. lower (name a) = u @ lq @ v)
      \<or> (\<exists>u v. lower (description a) = u @ lq @ v)
      \<or> (\<exists>tag \<in> set (tags a). \<exists>u v. lower tag = u @ lq @ v))"
  by (simp add: matchesQuery_def Text_contains_iff list_ex_iff)

lemma matchesCategory_iff:
  "matchesCategory cat a \<longleftrightarrow> (\<forall>c. cat = Some c \<longrightarrow> category a = c)"
  by (auto simp: matchesCategory_def split: option.splits)

lemma matchesLanguage_iff:
  "matchesLanguage lang a \<longleftrightarrow> (\<forall>l. lang = Some l \<longrightarrow> l \<in> set (languages a))"
  by (auto simp: matchesLanguage_def list_ex_iff split: option.splits)

lemma search_salt_museum_sr:
  "searchAttractions toLowerCase_sample (init env0) ''Salt'' (Some ''museum'') (Some ''sr'')
   = [sample_2 env0]"
  by (simp add: searchAttractions_def init_attractions_iter matchesQuery_def matchesCategory_def
      matchesLanguage_def lowerAscii_def lowerTwoBytes_def sample_0_def sample_1_def
      sample_2_def sample_3_def sample_4_def)

lemma search_LAKE:
  "searchAttractions toLowerCase_sample (init env0) ''LAKE'' None None = [sample_0 env0]"
  by (simp add: searchAttractions_def init_attractions_iter matchesQuery_def matchesCategory_def
      matchesLanguage_def lowerAscii_def lowerTwoBytes_def sample_0_def sample_1_def
      sample_2_def sample_3_def sample_4_def)

lemma search_TRZNICA:
  "searchAttractions toLowerCase_sample (init env0) (''TR'' @ [CHR 0xC5, CHR 0xBD] @ ''NICA'')
     None None = [sample_1 env0]"
  by (simp add: searchAttractions_def init_attractions_iter matchesQuery_def matchesCategory_def
      matchesLanguage_def lowerAscii_def lowerTwoBytes_def sample_0_def sample_1_def
      sample_2_def sample_3_def sample_4_def)

subsection \<open>The upgrade\<close>

lemma upgrade_eq: "upgrade env s = postupgrade env (init env)"
  by (simp add: upgrade_def replaceImage_def preupgrade_def init_def)

lemma postupgrade_rest:
  "reviews (postupgrade env s) = reviews s" "users (postupgrade env s) = users s"
  "payments (postupgrade env s) = payments s" "nextReviewId (postupgrade env s) = nextReviewId s"
  by (simp_all add: postupgrade_def initSampleData_def sampleAttractions_def
      initSampleData_step_def)

lemma postupgrade_attractions:
  "attractions (postupgrade env s)
   = Trie_put (Trie_put (Trie_put (Trie_put (Trie_put (attractions s)
       0 (sample_0 env)) 1 (sample_1 env)) 2 (sample_2 env)) 3 (sample_3 env))
       4 (sample_4 env)"
  by (simp add: postupgrade_def initSampleData_def sampleAttractions_def
      initSampleData_step_def sample_ids)

lemma upgrade_attractions_iter:
  "Trie_iter (attractions (upgrade env s))
   = [(0, sample_0 env), (1, sample_1 env), (2, sample_2 env), (3, sample_3 env),
      (4, sample_4 env)]"
  by (simp add: upgrade_eq postupgrade_attractions Trie_iter_put init_attractions_iter)

lemma postupgrade_counter: "nextAttractionId (postupgrade env s) = nextAttractionId s + 5"
  by (simp add: postupgrade_def initSampleData_def sampleAttractions_def initSampleData_step_def)

lemma reachable_freshIds: "reachable s \<Longrightarrow> freshIds s"
proof (induction rule: reachable.induct)
  case (reach_init env)
  show ?case by (simp add: freshIds_def init_rest Trie_iter_empty)
next
  case (reach_addReview s env a r c ps)
  then show ?case by (simp add: addReview_freshIds)
next
  case (reach_createPayment s env a n cur m)
  then show ?case by (simp add: createPayment_def freshIds_def Let_def split: option.splits)
next
  case (reach_updatePaymentStatus s p st)
  then show ?case by (simp add: updatePaymentStatus_def freshIds_def Let_def split: option.splits)
next
  case (reach_updateUserProfile s env u e l)
  then show ?case by (simp add: updateUserProfile_def freshIds_def Let_def)
next
  case (reach_upgrade s env)
  show ?case
    by (simp add: freshIds_def upgrade_eq postupgrade_rest init_rest Trie_iter_empty)
qed

subsection \<open>Two payments at one moment\<close>

lemma qr_500_EUR: "generateQRCodeData nm 500 ''EUR'' = ''nowpayments:500-EUR''"
  by (simp add: generateQRCodeData_def Nat_toText.simps digit_def)

lemma env0'_facts: "now env0' = now env0" "caller env0' \<noteq> caller env0"
  by (simp_all add: env0'_def env0_def)

lemma generatePaymentId_same: "generatePaymentId env0' = generatePaymentId env0"
  by (simp add: generatePaymentId_def env0'_facts)

lemma paid_second:
  "createPayment env0' 0 500 ''EUR'' ''ICP'' paid
   = (Inr payment1, paid\<lparr> payments := Trie_put (payments paid) (generatePaymentId env0) payment1 \<rparr>)"
  by (simp add: createPayment_def paid_payment(3) init_get Let_def payment1_def qr_500_EUR
      generatePaymentId_same sample_0_def)

subsection \<open>The payload of a payment\<close>

lemma digit_inj: "a < 10 \<Longrightarrow> b < 10 \<Longrightarrow> digit a = digit b \<Longrightarrow> a = b"
proof -
  assume a: "a < 10" and b: "b < 10" and e: "digit a = digit b"
  have d: "distinct ''0123456789''" by simp
  have l: "length ''0123456789'' = 10" by simp
  from e have "''0123456789'' ! a = ''0123456789'' ! b" by (simp only: digit_def)
  with a b show "a = b"
    using nth_eq_iff_index_eq [OF d, of a b] by (simp only: l)
qed

lemma digit_not_minus: "d < 10 \<Longrightarrow> digit d \<noteq> CHR ''-''"
proof -
  assume "d < 10"
  then have "digit d \<in> set ''0123456789''"
    unfolding digit_def by (intro nth_mem) simp
  then show ?thesis by auto
qed

lemma Nat_toText_nonempty: "Nat_toText n \<noteq> []"
  by (subst Nat_toText.simps) simp

lemma Nat_toText_no_minus: "CHR ''-'' \<notin> set (Nat_toText n)"
proof (induction n rule: Nat_toText.induct)
  case (1 n)
  show ?case
  proof (cases "n < 10")
    case True
    then show ?thesis
      using digit_not_minus [of n] by (subst Nat_toText.simps) auto
  next
    case False
    with 1 have "CHR ''-'' \<notin> set (Nat_toText (n div 10))" by simp
    moreover have "digit (n mod 10) \<noteq> CHR ''-''" by (rule digit_not_minus) simp
    ultimately show ?thesis
      using False by (subst Nat_toText.simps) auto
  qed
qed

lemma Nat_toText_inj: "Nat_toText n = Nat_toText m \<Longrightarrow> n = m"
proof (induction n arbitrary: m rule: Nat_toText.induct)
  case (1 n)
  show ?case
  proof (cases "n < 10")
    case n: True
    show ?thesis
    proof (cases "m < 10")
      case True
      with n 1(2) have "digit n = digit m" by (simp add: Nat_toText.simps)
      with n True show ?thesis by (rule digit_inj)
    next
      case False
      with n 1(2) have "[digit n] = Nat_toText (m div 10) @ [digit (m mod 10)]"
        by (simp add: Nat_toText.simps [of n] Nat_toText.simps [of m])
      then have "Nat_toText (m div 10) = []" by simp
      with Nat_toText_nonempty show ?thesis by blast
    qed
  next
    case n: False
    show ?thesis
    proof (cases "m < 10")
      case True
      with n 1(2) have "Nat_toText (n div 10) @ [digit (n mod 10)] = [digit m]"
        by (simp add: Nat_toText.simps [of n] Nat_toText.simps [of m])
      then have "Nat_toText (n div 10) = []" by simp
      with Nat_toText_nonempty show ?thesis by blast
    next
      case False
      with n 1(2) have "Nat_toText (n div 10) @ [digit (n mod 10)]
                        = Nat_toText (m div 10) @ [digit (m mod 10)]"
        by (simp add: Nat_toText.simps [of n] Nat_toText.simps [of m])
      then have q: "Nat_toText (n div 10) = Nat_toText (m div 10)"
        and d: "digit (n mod 10) = digit (m mod 10)" by simp_all
      from 1(1) [OF n q] have "n div 10 = m div 10" .
      moreover from d have "n mod 10 = m mod 10" by (intro digit_inj) simp_all
      ultimately show ?thesis by (metis div_mult_mod_eq)
    qed
  qed
qed

lemma split_at_first:
  "a \<notin> set xs \<Longrightarrow> a \<notin> set ys \<Longrightarrow> xs @ a # us = ys @ a # vs \<Longrightarrow> xs = ys \<and> us = vs"
proof (induction xs arbitrary: ys)
  case Nil
  then show ?case by (cases ys) auto
next
  case (Cons x xs)
  then show ?case by (cases ys) auto
qed

lemma generateQRCodeData_eq:
  "generateQRCodeData nm n cur = ''nowpayments:'' @ Nat_toText n @ ''-'' @ cur"
  by (simp add: generateQRCodeData_def)

lemma generateQRCodeData_inj:
  assumes "generateQRCodeData nm n cur = generateQRCodeData nm' n' cur'"
  shows "n = n' \<and> cur = cur'"
proof -
  from assms have "Nat_toText n @ CHR ''-'' # cur = Nat_toText n' @ CHR ''-'' # cur'"
    by (simp add: generateQRCodeData_def)
  from split_at_first [OF Nat_toText_no_minus Nat_toText_no_minus this]
  show ?thesis by (auto dest: Nat_toText_inj)
qed

lemma createPayment_Inr:
  assumes "fst (createPayment env aid n cur m s) = Inr p"
  shows "\<exists>a. Trie_get (attractions s) aid = Some a
          \<and> p = \<lparr> id_p = generatePaymentId env, userId_p = self env, attractionId_p = aid,
                    amount = n, currency = cur, paymentMethod = m, status = ''pending'',
                    qrCodeData = generateQRCodeData (name a) n cur, createdAt_p = now env \<rparr>
          \<and> snd (createPayment env aid n cur m s)
              = s\<lparr> payments := Trie_put (payments s) (generatePaymentId env) p \<rparr>"
  using assms by (auto simp: createPayment_def Let_def split: option.splits)

lemma createPayment_qr:
  assumes "fst (createPayment env aid n cur m s) = Inr p"
  shows "qrCodeData p = ''nowpayments:'' @ Nat_toText n @ ''-'' @ cur"
  using assms
  by (auto simp: createPayment_def Let_def generateQRCodeData_def split: option.splits)

lemma lake_payment:
  "fst (createPayment env0 0 300 ''EUR'' ''ICP'' (init env0)) = Inr paymentLake"
  by (simp add: paymentLake_def createPayment_def init_get Let_def qr_300_EUR)

lemma sample_names: "name (sample_0 env0) \<noteq> name (sample_2 env0)"
  by (simp add: sample_0_def sample_2_def)

section \<open>Failing calls\<close>

text \<open>
  Claim C3. \<open>addReview\<close> fails with the ValidationError exactly when the rating is
  outside 1..5, whether or not the attraction exists; with a valid rating it fails with
  the NotFoundError exactly when the attraction id is not stored; \<open>createPayment\<close>
  fails with the NotFoundError exactly when the attraction id is not stored. A failing
  call of either returns the state it was given: the four stores and both counters
  are unchanged.
\<close>

theorem failing_calls_change_nothing:
  "(failsWith (fst (addReview env aid r c ph s)) ValidationError \<longleftrightarrow> (r < 1 \<or> 5 < r))
   \<and> (failsWith (fst (addReview env aid r c ph s)) NotFoundError
        \<longleftrightarrow> (1 \<le> r \<and> r \<le> 5 \<and> Trie_get (attractions s) aid = None))
   \<and> (failsWith (fst (createPayment env aid n cur m s)) NotFoundError
        \<longleftrightarrow> Trie_get (attractions s) aid = None)
   \<and> (isl (fst (addReview env aid r c ph s)) \<longrightarrow> snd (addReview env aid r c ph s) = s)
   \<and> (isl (fst (createPayment env aid n cur m s))
        \<longrightarrow> snd (createPayment env aid n cur m s) = s)"
  by (auto simp: addReview_def createPayment_def failsWith_def errorKind_def Let_def
           split: option.splits)

theorem failing_calls_change_nothing_witness:
  "failsWith (fst (addReview env0 9 0 ''bad'' [] (init env0))) ValidationError
   \<and> snd (addReview env0 9 0 ''bad'' [] (init env0)) = init env0
   \<and> failsWith (fst (addReview env0 9 3 ''bad'' [] (init env0))) NotFoundError
   \<and> snd (addReview env0 9 3 ''bad'' [] (init env0)) = init env0
   \<and> failsWith (fst (createPayment env0 9 300 ''EUR'' ''ICP'' (init env0))) NotFoundError
   \<and> snd (createPayment env0 9 300 ''EUR'' ''ICP'' (init env0)) = init env0"
  using failing_calls_change_nothing
          [of env0 9 0 "''bad''" "[]" "init env0" 300 "''EUR''" "''ICP''"]
        failing_calls_change_nothing
          [of env0 9 3 "''bad''" "[]" "init env0" 300 "''EUR''" "''ICP''"]
  by (simp add: init_get failsWith_def split: sum.splits)

section \<open>Frame conditions\<close>

text \<open>
  Claim C5. \<open>updateUserProfile\<close> has no failing branch. When no profile is stored
  for the identity the actor uses, it stores one with the supplied username, email and
  preferred language, empty visited and favourite lists, zero spend and the current
  time as createdAt. When a profile is stored, only username, email and preferred
  language are overwritten; id, visited and favourite lists, spend and createdAt stay.
  Every other profile and every other store and counter is unchanged, and the identity
  has exactly one profile afterwards. After a second call under the same identity the
  one profile has the second username and the createdAt it had after the first call,
  which is the time of the first call when no profile existed before it.
\<close>

theorem updateUserProfile_upsert:
  "fst (updateUserProfile env un em pl s) = ()
   \<and> (Trie_get (users s) (self env) = None \<longrightarrow>
      Trie_get (users (snd (updateUserProfile env un em pl s))) (self env)
        = Some \<lparr> id_u = self env, username = un, email = em, preferredLanguage = pl,
                 visitedAttractions = [], favoriteAttractions = [], totalSpent = 0,
                 createdAt_u = now env \<rparr>)
   \<and> (\<forall>ex. Trie_get (users s) (self env) = Some ex \<longrightarrow>
        (\<exists>pr. Trie_get (users (snd (updateUserProfile env un em pl s))) (self env) = Some pr
           \<and> username pr = un \<and> email pr = em \<and> preferredLanguage pr = pl
           \<and> id_u pr = id_u ex \<and> visitedAttractions pr = visitedAttractions ex
           \<and> favoriteAttractions pr = favoriteAttractions ex \<and> totalSpent pr = totalSpent ex
           \<and> createdAt_u pr = createdAt_u ex))
   \<and> (\<forall>k. k \<noteq> self env \<longrightarrow>
        Trie_get (users (snd (updateUserProfile env un em pl s))) k = Trie_get (users s) k)
   \<and> snd (updateUserProfile env un em pl s)
       = s\<lparr> users := users (snd (updateUserProfile env un em pl s)) \<rparr>
   \<and> length (filter (\<lambda>(k, pr). k = self env)
               (Trie_iter (users (snd (updateUserProfile env un em pl s))))) = 1
   \<and> (\<forall>env2 un2 em2 pl2. self env2 = self env \<longrightarrow>
        (\<exists>p1 p2.
           Trie_get (users (snd (updateUserProfile env un em pl s))) (self env) = Some p1
           \<and> Trie_get (users (snd (updateUserProfile env2 un2 em2 pl2
                                     (snd (updateUserProfile env un em pl s))))) (self env)
               = Some p2
           \<and> username p2 = un2 \<and> createdAt_u p2 = createdAt_u p1
           \<and> (Trie_get (users s) (self env) = None \<longrightarrow> createdAt_u p2 = now env)
           \<and> length (filter (\<lambda>(k, pr). k = self env)
                       (Trie_iter (users (snd (updateUserProfile env2 un2 em2 pl2
                          (snd (updateUserProfile env un em pl s))))))) = 1))"
proof -
  have twice: "\<forall>env2 un2 em2 pl2. self env2 = self env \<longrightarrow>
        (\<exists>p1 p2.
           Trie_get (users (snd (updateUserProfile env un em pl s))) (self env) = Some p1
           \<and> Trie_get (users (snd (updateUserProfile env2 un2 em2 pl2
                                     (snd (updateUserProfile env un em pl s))))) (self env)
               = Some p2
           \<and> username p2 = un2 \<and> createdAt_u p2 = createdAt_u p1
           \<and> (Trie_get (users s) (self env) = None \<longrightarrow> createdAt_u p2 = now env)
           \<and> length (filter (\<lambda>(k, pr). k = self env)
                       (Trie_iter (users (snd (updateUserProfile env2 un2 em2 pl2
                          (snd (updateUserProfile env un em pl s))))))) = 1)"
    using updateUserProfile_twice by blast
  have once: "length (filter (\<lambda>(k, pr). k = self env)
               (Trie_iter (users (snd (updateUserProfile env un em pl s))))) = 1"
    by (rule updateUserProfile_once)
  have rest: "snd (updateUserProfile env un em pl s)
       = s\<lparr> users := users (snd (updateUserProfile env un em pl s)) \<rparr>"
    by (rule updateUserProfile_rest)
  have single: "(Trie_get (users s) (self env) = None \<longrightarrow>
      Trie_get (users (snd (updateUserProfile env un em pl s))) (self env)
        = Some \<lparr> id_u = self env, username = un, email = em, preferredLanguage = pl,
                 visitedAttractions = [], favoriteAttractions = [], totalSpent = 0,
                 createdAt_u = now env \<rparr>)
   \<and> (\<forall>ex. Trie_get (users s) (self env) = Some ex \<longrightarrow>
        (\<exists>pr. Trie_get (users (snd (updateUserProfile env un em pl s))) (self env) = Some pr
           \<and> username pr = un \<and> email pr = em \<and> preferredLanguage pr = pl
           \<and> id_u pr = id_u ex \<and> visitedAttractions pr = visitedAttractions ex
           \<and> favoriteAttractions pr = favoriteAttractions ex \<and> totalSpent pr = totalSpent ex
           \<and> createdAt_u pr = createdAt_u ex))
   \<and> (\<forall>k. k \<noteq> self env \<longrightarrow>
        Trie_get (users (snd (updateUserProfile env un em pl s))) k = Trie_get (users s) k)"
    by (simp add: updateUserProfile_users)
  have unit: "fst (updateUserProfile env un em pl s) = ()"
    by simp
  show ?thesis
    by (intro conjI) (use unit single rest once twice in \<open>blast+\<close>)
qed

theorem updateUserProfile_upsert_witness:
  "Trie_get (users (init env0)) (self env0) = None
   \<and> Trie_get (users profiled) (self env0)
       = Some \<lparr> id_u = self env0, username = ''amra'', email = ''amra@example.org'',
                preferredLanguage = ''bs'', visitedAttractions = [], favoriteAttractions = [],
                totalSpent = 0, createdAt_u = now env0 \<rparr>
   \<and> self env1 = self env0
   \<and> (\<exists>p2. Trie_get (users (snd (updateUserProfile env1 ''amra2'' ''a2@example.org'' ''en''
                                   profiled))) (self env0) = Some p2
          \<and> username p2 = ''amra2'' \<and> createdAt_u p2 = now env0)"
proof -
  have none: "Trie_get (users (init env0)) (self env0) = None"
    by (rule profiled_profile(1))
  have same: "self env1 = self env0"
    by (simp add: env0_def env1_def)
  note inst = updateUserProfile_upsert
               [where s = "init env0" and env = env0 and un = "''amra''"
                  and em = "''amra@example.org''" and pl = "''bs''"]
  from inst none have first: "Trie_get (users profiled) (self env0)
       = Some \<lparr> id_u = self env0, username = ''amra'', email = ''amra@example.org'',
                preferredLanguage = ''bs'', visitedAttractions = [], favoriteAttractions = [],
                totalSpent = 0, createdAt_u = now env0 \<rparr>"
    unfolding profiled_def by blast
  from inst same none
  have "\<exists>p1 p2. Trie_get (users profiled) (self env0) = Some p1
          \<and> Trie_get (users (snd (updateUserProfile env1 ''amra2'' ''a2@example.org'' ''en''
                                   profiled))) (self env0) = Some p2
          \<and> username p2 = ''amra2'' \<and> createdAt_u p2 = createdAt_u p1
          \<and> createdAt_u p2 = now env0"
    unfolding profiled_def by blast
  then have second: "\<exists>p2. Trie_get (users (snd (updateUserProfile env1 ''amra2''
                             ''a2@example.org'' ''en'' profiled))) (self env0) = Some p2
          \<and> username p2 = ''amra2'' \<and> createdAt_u p2 = now env0"
    by blast
  from none first same second show ?thesis by blast
qed

text \<open>
  Claim C6. For a stored transaction id and any status text, \<open>updatePaymentStatus\<close>
  succeeds and stores the same transaction with only its status replaced by the
  supplied text, whatever the old and the new status are; every other transaction,
  the attractions, the reviews, the profiles and both counters are unchanged. For an
  id that is not stored it fails with the NotFoundError and returns the state it was
  given.
\<close>

theorem updatePaymentStatus_frame:
  "(\<forall>p. Trie_get (payments s) pid = Some p \<longrightarrow>
      fst (updatePaymentStatus pid st s) = Inr ()
      \<and> Trie_get (payments (snd (updatePaymentStatus pid st s))) pid
          = Some (p\<lparr> status := st \<rparr>)
      \<and> (\<forall>k. k \<noteq> pid \<longrightarrow>
            Trie_get (payments (snd (updatePaymentStatus pid st s))) k
            = Trie_get (payments s) k)
      \<and> attractions (snd (updatePaymentStatus pid st s)) = attractions s
      \<and> reviews (snd (updatePaymentStatus pid st s)) = reviews s
      \<and> users (snd (updatePaymentStatus pid st s)) = users s
      \<and> nextAttractionId (snd (updatePaymentStatus pid st s)) = nextAttractionId s
      \<and> nextReviewId (snd (updatePaymentStatus pid st s)) = nextReviewId s)
   \<and> (Trie_get (payments s) pid = None \<longrightarrow>
        failsWith (fst (updatePaymentStatus pid st s)) NotFoundError
        \<and> snd (updatePaymentStatus pid st s) = s)"
  by (auto simp: updatePaymentStatus_def failsWith_def errorKind_def Let_def Trie_get_put)

theorem updatePaymentStatus_frame_witness:
  "Trie_get (payments paid) (generatePaymentId env0) = Some payment0
   \<and> fst (updatePaymentStatus (generatePaymentId env0) ''completed'' paid) = Inr ()
   \<and> Trie_get (payments (snd (updatePaymentStatus (generatePaymentId env0) ''completed'' paid)))
        (generatePaymentId env0) = Some (payment0\<lparr> status := ''completed'' \<rparr>)
   \<and> Trie_get (payments (init env0)) ''tx_0'' = None
   \<and> failsWith (fst (updatePaymentStatus ''tx_0'' ''completed'' (init env0))) NotFoundError
   \<and> snd (updatePaymentStatus ''tx_0'' ''completed'' (init env0)) = init env0"
  using updatePaymentStatus_frame [of paid "generatePaymentId env0" "''completed''"]
        updatePaymentStatus_frame [of "init env0" "''tx_0''" "''completed''"]
        paid_payment(2) profiled_profile(2)
  by blast

section \<open>Creating a payment\<close>

text \<open>
  Claim C7, as the specification states it: the payload of the returned transaction
  is derived from the attraction's name, the amount and the currency. The name has no
  part in it: \<open>generateQRCodeData\<close> builds a description from the name and does
  not use it. The same call for seed attractions 0 and 2, which have different names,
  returns the same payload.
\<close>

theorem payload_ignores_name_counterexample:
  "Trie_get (attractions (init env0)) 0 = Some (sample_0 env0)
   \<and> Trie_get (attractions (init env0)) 2 = Some (sample_2 env0)
   \<and> name (sample_0 env0) \<noteq> name (sample_2 env0)
   \<and> fst (createPayment env0 0 300 ''EUR'' ''ICP'' (init env0)) = Inr paymentLake
   \<and> fst (createPayment env0 2 300 ''EUR'' ''ICP'' (init env0)) = Inr payment0
   \<and> qrCodeData paymentLake = qrCodeData payment0"
proof -
  have same: "qrCodeData paymentLake = qrCodeData payment0"
    by (simp add: paymentLake_def payment0_def)
  show ?thesis
    by (intro conjI) (fact init_get(1) init_get(2) sample_names lake_payment paid_payment(1) same)+
qed

text \<open>
  Claim C7, amended. A successful \<open>createPayment\<close> returns a transaction with status
  "pending" whose amount, currency, payment method and attraction id are the
  arguments of the call, and whose payload \<open>qrCodeData\<close> is not empty and is derived
  from the amount and the currency alone: it is the text "nowpayments:", the decimal
  amount, "-" and the currency. Two successful calls, for whatever attractions, return
  the same payload exactly when their amounts and currencies are the same. The
  returned transaction is the one stored under its id.
\<close>

theorem createPayment_payload:
  assumes "fst (createPayment env aid n cur m s) = Inr p"
  shows "status p = ''pending'' \<and> amount p = n \<and> currency p = cur \<and> paymentMethod p = m
         \<and> attractionId_p p = aid \<and> qrCodeData p \<noteq> []
         \<and> qrCodeData p = ''nowpayments:'' @ Nat_toText n @ ''-'' @ cur
         \<and> Trie_get (payments (snd (createPayment env aid n cur m s))) (id_p p) = Some p
         \<and> (\<forall>env' aid' n' cur' m' s' p'.
               fst (createPayment env' aid' n' cur' m' s') = Inr p'
               \<longrightarrow> (qrCodeData p' = qrCodeData p \<longleftrightarrow> n' = n \<and> cur' = cur))"
proof -
  from createPayment_Inr [OF assms] obtain a where
    all: "Trie_get (attractions s) aid = Some a
          \<and> p = \<lparr> id_p = generatePaymentId env, userId_p = self env, attractionId_p = aid,
                    amount = n, currency = cur, paymentMethod = m, status = ''pending'',
                    qrCodeData = generateQRCodeData (name a) n cur, createdAt_p = now env \<rparr>
          \<and> snd (createPayment env aid n cur m s)
              = s\<lparr> payments := Trie_put (payments s) (generatePaymentId env) p \<rparr>" ..
  note p = all [THEN conjunct2, THEN conjunct1]
  note s' = all [THEN conjunct2, THEN conjunct2]
  have fields: "status p = ''pending''" "amount p = n" "currency p = cur" "paymentMethod p = m"
    "attractionId_p p = aid"
    by (subst p, simp)+
  have qr: "qrCodeData p = generateQRCodeData (name a) n cur"
    by (subst p) simp
  have payload: "qrCodeData p = ''nowpayments:'' @ Nat_toText n @ ''-'' @ cur"
    by (simp add: qr generateQRCodeData_eq)
  then have nonempty: "qrCodeData p \<noteq> []"
    by simp
  have "id_p p = generatePaymentId env"
    by (subst p) simp
  then have stored: "Trie_get (payments (snd (createPayment env aid n cur m s))) (id_p p) = Some p"
    by (simp add: s' Trie_get_put)
  have others: "\<forall>env' aid' n' cur' m' s' p'.
               fst (createPayment env' aid' n' cur' m' s') = Inr p'
               \<longrightarrow> (qrCodeData p' = qrCodeData p \<longleftrightarrow> n' = n \<and> cur' = cur)"
  proof (intro allI impI)
    fix env' :: Env and aid' n' :: nat and cur' m' :: Text and s' :: State
      and p' :: PaymentTransaction
    assume "fst (createPayment env' aid' n' cur' m' s') = Inr p'"
    then have "qrCodeData p' = generateQRCodeData [] n' cur'"
      by (simp add: createPayment_qr generateQRCodeData_eq)
    moreover have "qrCodeData p = generateQRCodeData [] n cur"
      by (simp add: payload generateQRCodeData_eq)
    ultimately show "qrCodeData p' = qrCodeData p \<longleftrightarrow> n' = n \<and> cur' = cur"
      using generateQRCodeData_inj [of "[]" n' cur' "[]" n cur]
      by auto
  qed
  show ?thesis
    by (intro conjI) (fact fields nonempty payload stored others)+
qed

theorem createPayment_payload_witness:
  "fst (createPayment env0 2 300 ''EUR'' ''ICP'' (init env0)) = Inr payment0
   \<and> status payment0 = ''pending'' \<and> amount payment0 = 300 \<and> currency payment0 = ''EUR''
   \<and> paymentMethod payment0 = ''ICP'' \<and> attractionId_p payment0 = 2
   \<and> qrCodeData payment0 = ''nowpayments:300-EUR''
   \<and> fst (createPayment env0 0 300 ''EUR'' ''ICP'' (init env0)) = Inr paymentLake
   \<and> qrCodeData paymentLake = qrCodeData payment0"
proof -
  note res = createPayment_payload [OF paid_payment(1)]
  from res have fields: "status payment0 = ''pending''" "amount payment0 = 300"
    "currency payment0 = ''EUR''" "paymentMethod payment0 = ''ICP''"
    "attractionId_p payment0 = 2"
    by blast+
  from res have "qrCodeData payment0 = ''nowpayments:'' @ Nat_toText 300 @ ''-'' @ ''EUR''"
    by blast
  then have payload: "qrCodeData payment0 = ''nowpayments:300-EUR''"
    by (simp add: Nat_toText.simps digit_def)
  from res lake_payment have same: "qrCodeData paymentLake = qrCodeData payment0"
    by blast
  show ?thesis
    by (intro conjI) (fact paid_payment(1) fields payload lake_payment same)+
qed

section \<open>Adding a review\<close>

text \<open>
  Claim C2. A call of \<open>addReview\<close> with a rating from 1 to 5 on a stored attraction
  returns the current \<open>nextReviewId\<close>, advances the counter, and stores the review
  under that id: the reviews afterwards are the reviews before with the new review
  put under that id, so every review stored under another id is kept. It stores the
  attraction with its rating replaced by the arithmetic mean of the ratings of all
  stored reviews of that attraction, the new one among them (their sum divided by
  their number, as a Float), and with updatedAt set to the current time; the same
  holds at the end of every run of such calls on the attraction that starts with this
  call.

  Where every stored review id is below \<open>nextReviewId\<close>, as in every reachable state,
  the call replaces no review: the sum of the attraction's ratings grows by the new
  rating and their number by one, and after a run of such calls the rating is the
  sum of the ratings stored before and of all ratings added in the run, divided by
  the number of the reviews stored before plus the number of calls.
\<close>

theorem addReview_rating_is_mean:
  assumes "1 \<le> r" and "r \<le> 5" and "Trie_get (attractions s) aid = Some a"
  shows "fst (addReview env aid r c ph s) = Inr (nextReviewId s)
         \<and> nextReviewId (snd (addReview env aid r c ph s)) = nextReviewId s + 1
         \<and> Trie_get (reviews (snd (addReview env aid r c ph s))) (nextReviewId s)
             = Some \<lparr> id_r = nextReviewId s, attractionId_r = aid, userId_r = self env,
                      rating_r = r, comment = c, photos = ph, createdAt_r = now env \<rparr>
         \<and> nextReviewId s \<in> keysFor (reviews (snd (addReview env aid r c ph s)))
                                      (\<lambda>rv. attractionId_r rv = aid)
         \<and> Trie_get (attractions (snd (addReview env aid r c ph s))) aid
             = Some (a\<lparr> rating_a := spec_meanRating (snd (addReview env aid r c ph s)) aid,
                        updatedAt := now env \<rparr>)
         \<and> (\<forall>calls. list_all (\<lambda>(env', r', c', ph'). 1 \<le> r' \<and> r' \<le> 5) calls \<longrightarrow>
               (\<exists>a'. Trie_get (attractions (addReviews aid ((env, r, c, ph) # calls) s)) aid
                        = Some a'
                      \<and> rating_a a'
                        = spec_meanRating (addReviews aid ((env, r, c, ph) # calls) s) aid))
         \<and> reviews (snd (addReview env aid r c ph s))
             = Trie_put (reviews s) (nextReviewId s)
                 \<lparr> id_r = nextReviewId s, attractionId_r = aid, userId_r = self env,
                   rating_r = r, comment = c, photos = ph, createdAt_r = now env \<rparr>
         \<and> (\<forall>k. k \<noteq> nextReviewId s \<longrightarrow>
               Trie_get (reviews (snd (addReview env aid r c ph s))) k
               = Trie_get (reviews s) k)
         \<and> (reachable s \<longrightarrow> freshIds s)
         \<and> (freshIds s \<longrightarrow>
               Trie_get (reviews s) (nextReviewId s) = None
               \<and> spec_ratingSum (snd (addReview env aid r c ph s)) aid = spec_ratingSum s aid + r
               \<and> spec_ratingCount (snd (addReview env aid r c ph s)) aid
                   = spec_ratingCount s aid + 1
               \<and> freshIds (snd (addReview env aid r c ph s))
               \<and> (\<forall>calls. list_all (\<lambda>(env', r', c', ph'). 1 \<le> r' \<and> r' \<le> 5) calls \<longrightarrow>
                    (\<exists>a'. Trie_get (attractions (addReviews aid ((env, r, c, ph) # calls) s)) aid
                             = Some a'
                           \<and> rating_a a'
                             = Float_div
                                 (Float_fromInt (int (spec_ratingSum s aid + r
                                    + sum_list (map (\<lambda>(env', r', c', ph'). r') calls))))
                                 (Float_fromInt (int (spec_ratingCount s aid + 1
                                    + length calls))))))"
proof -
  let ?s' = "snd (addReview env aid r c ph s)"
  let ?valid = "list_all (\<lambda>(env', r', c', ph'). 1 \<le> r' \<and> r' \<le> (5::nat))"
  note s' = addReview_success(1) [OF assms, of env c ph]
  have res: "fst (addReview env aid r c ph s) = Inr (nextReviewId s)"
    by (rule addReview_success(2) [OF assms])
  have nxt: "nextReviewId ?s' = nextReviewId s + 1"
    by (simp add: s' storeReview_def)
  have rv: "Trie_get (reviews ?s') (nextReviewId s)
             = Some \<lparr> id_r = nextReviewId s, attractionId_r = aid, userId_r = self env,
                      rating_r = r, comment = c, photos = ph, createdAt_r = now env \<rparr>"
    by (simp add: s' storeReview_def newReview_def Trie_get_put)
  then have key: "nextReviewId s \<in> keysFor (reviews ?s') (\<lambda>rv. attractionId_r rv = aid)"
    by (simp add: keysFor_def)
  have att: "Trie_get (attractions ?s') aid
             = Some (a\<lparr> rating_a := spec_meanRating ?s' aid, updatedAt := now env \<rparr>)"
    by (rule addReview_step [OF assms])
  have runs: "\<forall>calls. ?valid calls \<longrightarrow>
               (\<exists>a'. Trie_get (attractions (addReviews aid ((env, r, c, ph) # calls) s)) aid
                        = Some a'
                      \<and> rating_a a'
                        = spec_meanRating (addReviews aid ((env, r, c, ph) # calls) s) aid)"
  proof (intro allI impI)
    fix calls :: "(Env \<times> nat \<times> Text \<times> Text list) list"
    assume "?valid calls"
    with assms(1,2) have "?valid ((env, r, c, ph) # calls)"
      by simp
    from addReviews_mean [OF _ this assms(3)]
    show "\<exists>a'. Trie_get (attractions (addReviews aid ((env, r, c, ph) # calls) s)) aid = Some a'
               \<and> rating_a a' = spec_meanRating (addReviews aid ((env, r, c, ph) # calls) s) aid"
      by blast
  qed
  have frame: "reviews ?s'
             = Trie_put (reviews s) (nextReviewId s)
                 \<lparr> id_r = nextReviewId s, attractionId_r = aid, userId_r = self env,
                   rating_r = r, comment = c, photos = ph, createdAt_r = now env \<rparr>"
    using addReview_reviews [OF assms, of env c ph] by (simp add: newReview_def)
  have kept: "\<forall>k. k \<noteq> nextReviewId s \<longrightarrow> Trie_get (reviews ?s') k = Trie_get (reviews s) k"
    by (simp add: frame Trie_get_put)
  have reach: "reachable s \<longrightarrow> freshIds s"
    by (simp add: reachable_freshIds)
  have fresh: "freshIds s \<longrightarrow>
               Trie_get (reviews s) (nextReviewId s) = None
               \<and> spec_ratingSum ?s' aid = spec_ratingSum s aid + r
               \<and> spec_ratingCount ?s' aid = spec_ratingCount s aid + 1
               \<and> freshIds ?s'
               \<and> (\<forall>calls. ?valid calls \<longrightarrow>
                    (\<exists>a'. Trie_get (attractions (addReviews aid ((env, r, c, ph) # calls) s)) aid
                             = Some a'
                           \<and> rating_a a'
                             = Float_div
                                 (Float_fromInt (int (spec_ratingSum s aid + r
                                    + sum_list (map (\<lambda>(env', r', c', ph'). r') calls))))
                                 (Float_fromInt (int (spec_ratingCount s aid + 1
                                    + length calls)))))"
  proof
    assume f: "freshIds s"
    note t = addReview_totals [OF assms f, of env c ph]
    have seq: "\<forall>calls. ?valid calls \<longrightarrow>
                    (\<exists>a'. Trie_get (attractions (addReviews aid ((env, r, c, ph) # calls) s)) aid
                             = Some a'
                           \<and> rating_a a'
                             = Float_div
                                 (Float_fromInt (int (spec_ratingSum s aid + r
                                    + sum_list (map (\<lambda>(env', r', c', ph'). r') calls))))
                                 (Float_fromInt (int (spec_ratingCount s aid + 1
                                    + length calls))))"
    proof (intro allI impI)
      fix calls :: "(Env \<times> nat \<times> Text \<times> Text list) list"
      assume v: "?valid calls"
      let ?run = "addReviews aid ((env, r, c, ph) # calls) s"
      from runs v obtain a' where a': "Trie_get (attractions ?run) aid = Some a'"
        and mean: "rating_a a' = spec_meanRating ?run aid"
        by blast
      from addReviews_totals [OF v att t(3)]
      have "spec_ratingSum ?run aid
              = spec_ratingSum s aid + r + sum_list (map (\<lambda>(env', r', c', ph'). r') calls)"
        and "spec_ratingCount ?run aid = spec_ratingCount s aid + 1 + length calls"
        by (simp_all add: t(1,2))
      with mean have "rating_a a'
              = Float_div
                  (Float_fromInt (int (spec_ratingSum s aid + r
                     + sum_list (map (\<lambda>(env', r', c', ph'). r') calls))))
                  (Float_fromInt (int (spec_ratingCount s aid + 1 + length calls)))"
        by (simp add: spec_meanRating_def)
      with a' show "\<exists>a'. Trie_get (attractions ?run) aid = Some a'
                           \<and> rating_a a'
                             = Float_div
                                 (Float_fromInt (int (spec_ratingSum s aid + r
                                    + sum_list (map (\<lambda>(env', r', c', ph'). r') calls))))
                                 (Float_fromInt (int (spec_ratingCount s aid + 1
                                    + length calls)))"
        by blast
    qed
    note g = freshIds_get [OF f]
    show "Trie_get (reviews s) (nextReviewId s) = None
               \<and> spec_ratingSum ?s' aid = spec_ratingSum s aid + r
               \<and> spec_ratingCount ?s' aid = spec_ratingCount s aid + 1
               \<and> freshIds ?s'
               \<and> (\<forall>calls. ?valid calls \<longrightarrow>
                    (\<exists>a'. Trie_get (attractions (addReviews aid ((env, r, c, ph) # calls) s)) aid
                             = Some a'
                           \<and> rating_a a'
                             = Float_div
                                 (Float_fromInt (int (spec_ratingSum s aid + r
                                    + sum_list (map (\<lambda>(env', r', c', ph'). r') calls))))
                                 (Float_fromInt (int (spec_ratingCount s aid + 1
                                    + length calls)))))"
      by (intro conjI) (fact g t seq)+
  qed
  show ?thesis
    by (intro conjI) (fact res nxt rv key att runs frame kept reach fresh)+
qed

theorem addReview_rating_is_mean_witness:
  "Trie_get (attractions (init env0)) 0 = Some (sample_0 env0)
   \<and> reachable (init env0) \<and> freshIds (init env0)
   \<and> fst (addReview env0 0 5 ''Great lake'' [] (init env0)) = Inr 0
   \<and> spec_meanRating reviewed 0 = Float_div (Float_fromInt 5) (Float_fromInt 1)
   \<and> spec_meanRating reviewedTwice 0 = Float_div (Float_fromInt 7) (Float_fromInt 2)
   \<and> (\<exists>a'. Trie_get (attractions
               (addReviews 0 [(env0, 5, ''Great lake'', []), (env1, 5, ''Again'', []),
                              (env1, 4, ''Busy'', [])] (init env0))) 0 = Some a'
          \<and> rating_a a' = Float_div (Float_fromInt 14) (Float_fromInt 3))"
proof -
  have le: "(1::nat) \<le> 5" "(5::nat) \<le> 5" by simp_all
  note inst = addReview_rating_is_mean [OF le init_get(1), of env0 "''Great lake''" "[]"]
  have reach: "reachable (init env0)" by (rule reach_init)
  with inst have fresh: "freshIds (init env0)" by blast
  from inst have res: "fst (addReview env0 0 5 ''Great lake'' [] (init env0)) = Inr 0"
    by (simp add: init_rest)
  from inst have "Trie_get (attractions reviewed) 0
      = Some ((sample_0 env0)\<lparr> rating_a := spec_meanRating reviewed 0, updatedAt := now env0 \<rparr>)"
    unfolding reviewed_def by blast
  then have "rating_a ((sample_0 env0)\<lparr> rating_a := spec_meanRating reviewed 0,
                                        updatedAt := now env0 \<rparr>)
             = rating_a ((sample_0 env0)\<lparr> rating_a := Float_div (Float_fromInt 5) (Float_fromInt 1),
              updatedAt := now env0 \<rparr>)"
    by (simp only: reviewed_attraction option.inject)
  then have one: "spec_meanRating reviewed 0 = Float_div (Float_fromInt 5) (Float_fromInt 1)"
    by simp
  have "list_all (\<lambda>(env', r', c', ph'). 1 \<le> r' \<and> r' \<le> 5) [(env1, 2::nat, ''Crowded'', [])]"
    by simp
  with inst have "\<exists>a'. Trie_get (attractions reviewedTwice) 0 = Some a'
                     \<and> rating_a a' = spec_meanRating reviewedTwice 0"
    unfolding reviewedTwice_def by blast
  with reviewedTwice_rating
  have two: "spec_meanRating reviewedTwice 0 = Float_div (Float_fromInt 7) (Float_fromInt 2)"
    by auto
  have none: "spec_ratingSum (init env0) 0 = 0" "spec_ratingCount (init env0) 0 = 0"
    by (simp_all add: spec_ratingSum_list spec_ratingCount_list getReviewsInternal_def
        init_rest Trie_iter_empty)
  have valid: "list_all (\<lambda>(env', r', c', ph'). 1 \<le> r' \<and> r' \<le> 5)
                 [(env1, 5::nat, ''Again'', []), (env1, 4, ''Busy'', [])]"
    by simp
  from inst fresh
  have "\<forall>calls. list_all (\<lambda>(env', r', c', ph'). 1 \<le> r' \<and> r' \<le> 5) calls \<longrightarrow>
          (\<exists>a'. Trie_get (attractions
                    (addReviews 0 ((env0, 5, ''Great lake'', []) # calls) (init env0))) 0 = Some a'
                \<and> rating_a a'
                  = Float_div
                      (Float_fromInt (int (spec_ratingSum (init env0) 0 + 5
                         + sum_list (map (\<lambda>(env', r', c', ph'). r') calls))))
                      (Float_fromInt (int (spec_ratingCount (init env0) 0 + 1 + length calls))))"
    by blast
  from this [rule_format, OF valid]
  have three: "\<exists>a'. Trie_get (attractions
               (addReviews 0 [(env0, 5, ''Great lake'', []), (env1, 5, ''Again'', []),
                              (env1, 4, ''Busy'', [])] (init env0))) 0 = Some a'
          \<and> rating_a a' = Float_div (Float_fromInt 14) (Float_fromInt 3)"
    by (simp add: none)
  show ?thesis
    by (intro conjI) (fact init_get(1) reach fresh res one two three)+
qed

text \<open>
  Claim C10. In a successful \<open>addReview\<close> the rescan runs over the store that
  already holds the new review, so the list it gathers contains that review and is not
  empty; the divisor of the new rating is \<^verbatim>\<open>Float.fromInt\<close> of the length of
  that list, a positive number, and so is not the Float of zero.
\<close>

theorem rescan_nonempty:
  assumes "fst (addReview env aid r c ph s) = Inr i"
  shows "(\<exists>a. Trie_get (attractions s) aid = Some a
            \<and> Trie_get (attractions (snd (addReview env aid r c ph s))) aid
                = Some (a\<lparr> rating_a :=
                     Float_div
                       (Float_fromInt (int (foldl (\<lambda>acc rv. acc + rating_r rv) 0
                          (getReviewsInternal (storeReview env aid r c ph s) aid))))
                       (Float_fromInt (int (length
                          (getReviewsInternal (storeReview env aid r c ph s) aid)))),
                     updatedAt := now env \<rparr>))
         \<and> newReview env s aid r c ph
             \<in> set (getReviewsInternal (storeReview env aid r c ph s) aid)
         \<and> getReviewsInternal (storeReview env aid r c ph s) aid \<noteq> []
         \<and> 0 < length (getReviewsInternal (storeReview env aid r c ph s) aid)
         \<and> Float_fromInt (int (length (getReviewsInternal (storeReview env aid r c ph s) aid)))
             \<noteq> Float_fromInt 0"
proof -
  let ?all = "getReviewsInternal (storeReview env aid r c ph s) aid"
  from addReview_Inr [OF assms] obtain a where valid: "1 \<le> r" "r \<le> 5"
    and a: "Trie_get (attractions s) aid = Some a" by blast
  have "Trie_get (attractions (snd (addReview env aid r c ph s))) aid
          = Some (a\<lparr> rating_a := newRating (storeReview env aid r c ph s) aid,
                     updatedAt := now env \<rparr>)"
    by (simp add: addReview_success(1) [OF valid a] Trie_get_put)
  then have first: "\<exists>a. Trie_get (attractions s) aid = Some a
            \<and> Trie_get (attractions (snd (addReview env aid r c ph s))) aid
                = Some (a\<lparr> rating_a :=
                     Float_div
                       (Float_fromInt (int (foldl (\<lambda>acc rv. acc + rating_r rv) 0 ?all)))
                       (Float_fromInt (int (length ?all))),
                     updatedAt := now env \<rparr>)"
    using a by (simp add: newRating_def Let_def)
  have mem: "newReview env s aid r c ph \<in> set ?all"
    by (rule stored_review_rescanned)
  then have ne: "?all \<noteq> []" by auto
  then have pos: "0 < length ?all" by simp
  then have nz: "Float_fromInt (int (length ?all)) \<noteq> Float_fromInt 0"
    by simp
  from first mem ne pos nz show ?thesis by blast
qed

theorem rescan_nonempty_witness:
  "fst (addReview env0 0 5 ''Great lake'' [] (init env0)) = Inr 0
   \<and> getReviewsInternal (storeReview env0 0 5 ''Great lake'' [] (init env0)) 0 \<noteq> []
   \<and> Float_fromInt (int (length
        (getReviewsInternal (storeReview env0 0 5 ''Great lake'' [] (init env0)) 0)))
       \<noteq> Float_fromInt 0"
  using rescan_nonempty [OF reviewed_fst] reviewed_fst by blast

section \<open>The identity the actor records\<close>

text \<open>
  Claim C9. The identity stored by \<open>addReview\<close>, \<open>createPayment\<close> and
  \<open>updateUserProfile\<close> is \<^verbatim>\<open>Principal.fromActor(this)\<close>, the actor's own
  principal. The remote caller has no influence on any of the three calls, the userId
  of a review or transaction stored by a successful call and the key of the profile
  written are the actor's principal, and so two calls that reach the same actor
  record the same identity, whoever made them.
\<close>

theorem recorded_identity_is_self:
  "addReview (env\<lparr> caller := cl \<rparr>) aid r c ph s = addReview env aid r c ph s
   \<and> createPayment (env\<lparr> caller := cl \<rparr>) pa n cur m s = createPayment env pa n cur m s
   \<and> updateUserProfile (env\<lparr> caller := cl \<rparr>) un em pl s = updateUserProfile env un em pl s
   \<and> (\<forall>i. fst (addReview env aid r c ph s) = Inr i \<longrightarrow>
         map_option userId_r (Trie_get (reviews (snd (addReview env aid r c ph s))) i)
         = Some (self env))
   \<and> (\<forall>p. fst (createPayment env pa n cur m s) = Inr p \<longrightarrow>
         userId_p p = self env
         \<and> map_option userId_p
             (Trie_get (payments (snd (createPayment env pa n cur m s))) (id_p p))
           = Some (self env))
   \<and> Trie_get (users (snd (updateUserProfile env un em pl s))) (self env) \<noteq> None
   \<and> (\<forall>k. k \<noteq> self env \<longrightarrow>
         Trie_get (users (snd (updateUserProfile env un em pl s))) k = Trie_get (users s) k)
   \<and> (\<forall>env2 aid2 r2 c2 ph2 s2 i i2.
         self env2 = self env \<and> fst (addReview env aid r c ph s) = Inr i
         \<and> fst (addReview env2 aid2 r2 c2 ph2 s2) = Inr i2 \<longrightarrow>
         map_option userId_r (Trie_get (reviews (snd (addReview env aid r c ph s))) i)
         = map_option userId_r (Trie_get (reviews (snd (addReview env2 aid2 r2 c2 ph2 s2))) i2))
   \<and> (\<forall>env2 aid2 n2 cur2 m2 s2 p p2.
         self env2 = self env \<and> fst (createPayment env pa n cur m s) = Inr p
         \<and> fst (createPayment env2 aid2 n2 cur2 m2 s2) = Inr p2 \<longrightarrow>
         userId_p p = userId_p p2)"
proof -
  have rev: "\<And>(env::Env) aid r c ph s i. fst (addReview env aid r c ph s) = Inr i \<Longrightarrow>
         map_option userId_r (Trie_get (reviews (snd (addReview env aid r c ph s))) i)
         = Some (self env)"
    by (auto simp: addReview_def Let_def storeReview_def newReview_def Trie_get_put
             split: if_splits option.splits)
  have pay: "\<And>(env::Env) pa n cur m s p. fst (createPayment env pa n cur m s) = Inr p \<Longrightarrow>
         userId_p p = self env
         \<and> map_option userId_p
             (Trie_get (payments (snd (createPayment env pa n cur m s))) (id_p p))
           = Some (self env)"
    by (auto simp: createPayment_def Let_def Trie_get_put split: option.splits)
  have c1: "addReview (env\<lparr> caller := cl \<rparr>) aid r c ph s = addReview env aid r c ph s"
    by (simp add: addReview_def storeReview_def newReview_def Let_def split: option.splits)
  have c2: "createPayment (env\<lparr> caller := cl \<rparr>) pa n cur m s = createPayment env pa n cur m s"
    by (simp add: createPayment_def generatePaymentId_def Let_def split: option.splits)
  have c3: "updateUserProfile (env\<lparr> caller := cl \<rparr>) un em pl s
            = updateUserProfile env un em pl s"
    by (simp add: updateUserProfile_def Let_def split: option.splits)
  have prof: "Trie_get (users (snd (updateUserProfile env un em pl s))) (self env) \<noteq> None"
    "\<forall>k. k \<noteq> self env \<longrightarrow>
         Trie_get (users (snd (updateUserProfile env un em pl s))) k = Trie_get (users s) k"
    by (simp_all add: updateUserProfile_users)
  have two_rev: "\<forall>env2 aid2 r2 c2 ph2 s2 i i2.
         self env2 = self env \<and> fst (addReview env aid r c ph s) = Inr i
         \<and> fst (addReview env2 aid2 r2 c2 ph2 s2) = Inr i2 \<longrightarrow>
         map_option userId_r (Trie_get (reviews (snd (addReview env aid r c ph s))) i)
         = map_option userId_r (Trie_get (reviews (snd (addReview env2 aid2 r2 c2 ph2 s2))) i2)"
    by (metis rev)
  have two_pay: "\<forall>env2 aid2 n2 cur2 m2 s2 p p2.
         self env2 = self env \<and> fst (createPayment env pa n cur m s) = Inr p
         \<and> fst (createPayment env2 aid2 n2 cur2 m2 s2) = Inr p2 \<longrightarrow>
         userId_p p = userId_p p2"
    by (metis pay)
  from c1 c2 c3 rev [of env aid r c ph s] pay [of env pa n cur m s] prof two_rev two_pay
  show ?thesis by blast
qed

theorem recorded_identity_is_self_witness:
  "caller env0 \<noteq> caller env1 \<and> self env1 = self env0
   \<and> fst (addReview env0 0 5 ''Great lake'' [] (init env0)) = Inr 0
   \<and> map_option userId_r (Trie_get (reviews reviewed) 0) = Some (self env0)
   \<and> fst (createPayment env0 2 300 ''EUR'' ''ICP'' (init env0)) = Inr payment0
   \<and> userId_p payment0 = self env0
   \<and> (\<exists>p2. fst (createPayment env1 2 300 ''EUR'' ''ICP'' reviewed) = Inr p2
          \<and> userId_p payment0 = userId_p p2)"
proof -
  note inst = recorded_identity_is_self
                [where env = env0 and cl = "caller env1" and aid = 0 and r = 5
                   and c = "''Great lake''" and ph = "[]" and s = "init env0"
                   and pa = 2 and n = 300 and cur = "''EUR''" and m = "''ICP''"
                   and un = "''amra''" and em = "''amra@example.org''" and pl = "''bs''"]
  have callers: "caller env0 \<noteq> caller env1" and same: "self env1 = self env0"
    by (simp_all add: env0_def env1_def)
  from inst reviewed_fst
  have author: "map_option userId_r (Trie_get (reviews reviewed) 0) = Some (self env0)"
    unfolding reviewed_def by blast
  from inst paid_payment(1) have owner: "userId_p payment0 = self env0"
    by blast
  have "\<exists>p2. fst (createPayment env1 2 300 ''EUR'' ''ICP'' reviewed) = Inr p2"
    by (simp add: createPayment_def reviewed_state Trie_get_put init_get Let_def)
  then obtain p2 where p2: "fst (createPayment env1 2 300 ''EUR'' ''ICP'' reviewed) = Inr p2"
    by blast
  with inst same paid_payment(1) have "userId_p payment0 = userId_p p2"
    by blast
  with p2 have other: "\<exists>p2. fst (createPayment env1 2 300 ''EUR'' ''ICP'' reviewed) = Inr p2
          \<and> userId_p payment0 = userId_p p2"
    by blast
  from callers same reviewed_fst author paid_payment(1) owner other show ?thesis by blast
qed

section \<open>Searching the catalogue\<close>

text \<open>
  Claim C4. Whatever function \<^verbatim>\<open>Text.toLowerCase\<close> is, the attractions
  \<open>searchAttractions\<close> returns are exactly the stored attractions for which the
  lower-cased query text is a substring of the lower-cased name, of the lower-cased
  description or of a lower-cased tag, whose category is the supplied one when a
  category is supplied, and whose languages contain the supplied one when a language
  is supplied. For the empty query text, which lower-cases to the empty text, the
  first condition holds of every attraction.
\<close>

theorem searchAttractions_exact:
  "set (searchAttractions toLowerCase s q cat lang)
   = {a. (\<exists>i. Trie_get (attractions s) i = Some a)
         \<and> ((\<exists>u v. toLowerCase (name a) = u @ toLowerCase q @ v)
            \<or> (\<exists>u v. toLowerCase (description a) = u @ toLowerCase q @ v)
            \<or> (\<exists>tag \<in> set (tags a). \<exists>u v. toLowerCase tag = u @ toLowerCase q @ v))
         \<and> (\<forall>c. cat = Some c \<longrightarrow> category a = c)
         \<and> (\<forall>l. lang = Some l \<longrightarrow> l \<in> set (languages a))}
   \<and> (toLowerCase [] = [] \<and> q = [] \<longrightarrow> set (searchAttractions toLowerCase s q cat lang)
        = {a. (\<exists>i. Trie_get (attractions s) i = Some a)
              \<and> (\<forall>c. cat = Some c \<longrightarrow> category a = c)
              \<and> (\<forall>l. lang = Some l \<longrightarrow> l \<in> set (languages a))})"
proof -
  have first: "set (searchAttractions toLowerCase s q cat lang)
   = {a. (\<exists>i. Trie_get (attractions s) i = Some a)
         \<and> ((\<exists>u v. toLowerCase (name a) = u @ toLowerCase q @ v)
            \<or> (\<exists>u v. toLowerCase (description a) = u @ toLowerCase q @ v)
            \<or> (\<exists>tag \<in> set (tags a). \<exists>u v. toLowerCase tag = u @ toLowerCase q @ v))
         \<and> (\<forall>c. cat = Some c \<longrightarrow> category a = c)
         \<and> (\<forall>l. lang = Some l \<longrightarrow> l \<in> set (languages a))}"
    unfolding set_eq_iff mem_Collect_eq searchAttractions_mem matchesQuery_iff
      matchesCategory_iff matchesLanguage_iff
    by blast
  have second: "toLowerCase [] = [] \<and> q = [] \<longrightarrow> set (searchAttractions toLowerCase s q cat lang)
        = {a. (\<exists>i. Trie_get (attractions s) i = Some a)
              \<and> (\<forall>c. cat = Some c \<longrightarrow> category a = c)
              \<and> (\<forall>l. lang = Some l \<longrightarrow> l \<in> set (languages a))}"
  proof
    assume e: "toLowerCase [] = [] \<and> q = []"
    have "\<And>t::Text. \<exists>u v. t = u @ toLowerCase q @ v"
    proof -
      fix t :: Text
      from e have "t = [] @ toLowerCase q @ t" by simp
      then show "\<exists>u v. t = u @ toLowerCase q @ v" by blast
    qed
    then show "set (searchAttractions toLowerCase s q cat lang)
        = {a. (\<exists>i. Trie_get (attractions s) i = Some a)
              \<and> (\<forall>c. cat = Some c \<longrightarrow> category a = c)
              \<and> (\<forall>l. lang = Some l \<longrightarrow> l \<in> set (languages a))}"
      unfolding first by auto
  qed
  from first second show ?thesis by blast
qed

theorem searchAttractions_exact_witness:
  "searchAttractions toLowerCase_sample (init env0) ''Salt'' (Some ''museum'') (Some ''sr'')
     = [sample_2 env0]
   \<and> (\<exists>i. Trie_get (attractions (init env0)) i = Some (sample_2 env0))
   \<and> category (sample_2 env0) = ''museum''
   \<and> ''sr'' \<in> set (languages (sample_2 env0))
   \<and> searchAttractions toLowerCase_sample (init env0) ''LAKE'' None None = [sample_0 env0]
   \<and> searchAttractions toLowerCase_sample (init env0)
        (''TR'' @ [CHR 0xC5, CHR 0xBD] @ ''NICA'') None None = [sample_1 env0]
   \<and> ((\<exists>u v. toLowerCase_sample (name (sample_1 env0))
               = u @ toLowerCase_sample (''TR'' @ [CHR 0xC5, CHR 0xBD] @ ''NICA'') @ v)
      \<or> (\<exists>u v. toLowerCase_sample (description (sample_1 env0))
               = u @ toLowerCase_sample (''TR'' @ [CHR 0xC5, CHR 0xBD] @ ''NICA'') @ v)
      \<or> (\<exists>tag \<in> set (tags (sample_1 env0)).
            \<exists>u v. toLowerCase_sample tag
               = u @ toLowerCase_sample (''TR'' @ [CHR 0xC5, CHR 0xBD] @ ''NICA'') @ v))
   \<and> toLowerCase_sample [] = []
   \<and> set (searchAttractions toLowerCase_sample (init env0) [] (Some ''museum'') None)
       = {a. (\<exists>i. Trie_get (attractions (init env0)) i = Some a) \<and> category a = ''museum''}"
proof -
  note salt = searchAttractions_exact
                [of toLowerCase_sample "init env0" "''Salt''" "Some ''museum''" "Some ''sr''"]
  note trz = searchAttractions_exact
               [of toLowerCase_sample "init env0" "''TR'' @ [CHR 0xC5, CHR 0xBD] @ ''NICA''"
                   None None]
  note museums = searchAttractions_exact
                   [of toLowerCase_sample "init env0" "[]" "Some ''museum''" None]
  have "sample_2 env0
        \<in> set (searchAttractions toLowerCase_sample (init env0) ''Salt'' (Some ''museum'')
                 (Some ''sr''))"
    by (simp add: search_salt_museum_sr)
  with salt have museum: "(\<exists>i. Trie_get (attractions (init env0)) i = Some (sample_2 env0))
      \<and> category (sample_2 env0) = ''museum'' \<and> ''sr'' \<in> set (languages (sample_2 env0))"
    by blast
  have "sample_1 env0
        \<in> set (searchAttractions toLowerCase_sample (init env0)
                 (''TR'' @ [CHR 0xC5, CHR 0xBD] @ ''NICA'') None None)"
    by (simp only: search_TRZNICA list.set_intros)
  with trz
  have found: "(\<exists>u v. toLowerCase_sample (name (sample_1 env0))
               = u @ toLowerCase_sample (''TR'' @ [CHR 0xC5, CHR 0xBD] @ ''NICA'') @ v)
      \<or> (\<exists>u v. toLowerCase_sample (description (sample_1 env0))
               = u @ toLowerCase_sample (''TR'' @ [CHR 0xC5, CHR 0xBD] @ ''NICA'') @ v)
      \<or> (\<exists>tag \<in> set (tags (sample_1 env0)).
            \<exists>u v. toLowerCase_sample tag
               = u @ toLowerCase_sample (''TR'' @ [CHR 0xC5, CHR 0xBD] @ ''NICA'') @ v)"
    by blast
  have nil: "toLowerCase_sample [] = []" by simp
  with conjunct2 [OF museums]
  have all: "set (searchAttractions toLowerCase_sample (init env0) [] (Some ''museum'') None)
       = {a. (\<exists>i. Trie_get (attractions (init env0)) i = Some a) \<and> category a = ''museum''}"
    by simp
  show ?thesis
    by (intro conjI) (fact search_salt_museum_sr museum [THEN conjunct1]
        museum [THEN conjunct2, THEN conjunct1] museum [THEN conjunct2, THEN conjunct2]
        search_LAKE search_TRZNICA found nil all)+
qed

section \<open>The upgrade cycle\<close>

text \<open>
  Claim C1, as the specification states it: for every reachable state, the state
  after \<open>preupgrade\<close>, the replacement of the process image and \<open>postupgrade\<close> is the
  state before. The actor does not do this. After one review, the upgrade cycle gives
  a different state; and \<open>postupgrade\<close> alone, run on the state that was there
  before, gives a different state too, because it runs the seed again.
\<close>

theorem upgrade_loses_state_counterexample:
  "reachable reviewed \<and> upgrade env1 reviewed \<noteq> reviewed
   \<and> postupgrade env1 reviewed \<noteq> reviewed"
proof -
  have "nextReviewId (upgrade env1 reviewed) = 0"
    by (simp add: upgrade_eq postupgrade_rest init_rest)
  then have cycle: "upgrade env1 reviewed \<noteq> reviewed"
    using reviewed_next by auto
  have "nextAttractionId (postupgrade env1 reviewed) \<noteq> nextAttractionId reviewed"
    by (simp add: postupgrade_counter)
  then have seed: "postupgrade env1 reviewed \<noteq> reviewed" by auto
  from reviewed_reachable cycle seed show ?thesis by blast
qed

text \<open>
  Claim C1, amended. None of the stores and counters is declared stable and
  \<open>preupgrade\<close> saves nothing, so the upgrade cycle keeps nothing of the state
  before: whatever that state was, afterwards there are no reviews, profiles or
  payments, \<open>nextReviewId\<close> is 0, and the attractions are the five seed entries with
  their seed ratings and the time of the upgrade. The seed runs on every upgrade, in
  the body of the new image and again in \<open>postupgrade\<close>, which leaves
  \<open>nextAttractionId\<close> at 10.
\<close>

theorem upgrade_reseeds:
  "upgrade env s = upgrade env s'
   \<and> Trie_iter (attractions (upgrade env s))
       = [(0, sample_0 env), (1, sample_1 env), (2, sample_2 env), (3, sample_3 env),
          (4, sample_4 env)]
   \<and> Trie_iter (reviews (upgrade env s)) = []
   \<and> Trie_iter (users (upgrade env s)) = []
   \<and> Trie_iter (payments (upgrade env s)) = []
   \<and> nextReviewId (upgrade env s) = 0
   \<and> nextAttractionId (upgrade env s) = 10
   \<and> upgrade env s = postupgrade env (actorBody env declared)"
proof -
  have indep: "upgrade env s = upgrade env s'"
    by (simp add: upgrade_eq)
  have rest: "Trie_iter (reviews (upgrade env s)) = []" "Trie_iter (users (upgrade env s)) = []"
    "Trie_iter (payments (upgrade env s)) = []" "nextReviewId (upgrade env s) = 0"
    by (simp_all add: upgrade_eq postupgrade_rest init_rest Trie_iter_empty)
  have counter: "nextAttractionId (upgrade env s) = 10"
    by (simp add: upgrade_eq postupgrade_counter init_rest)
  have run: "upgrade env s = postupgrade env (actorBody env declared)"
    by (simp add: upgrade_eq init_def)
  show ?thesis
    by (intro conjI) (fact indep upgrade_attractions_iter rest counter run)+
qed

section \<open>Transaction ids\<close>

text \<open>
  Claim C8 says that the id of a new transaction differs from the id of every stored
  one. \<open>generatePaymentId\<close> reads nothing but the time, so two calls at the same
  time get the same id: the second call below, by another caller and for another
  attraction and amount, returns the id of the stored transaction and replaces it;
  one transaction is stored afterwards, not two.
\<close>

theorem createPayment_id_collision:
  "now env0' = now env0 \<and> caller env0' \<noteq> caller env0
   \<and> fst (createPayment env0 2 300 ''EUR'' ''ICP'' (init env0)) = Inr payment0
   \<and> Trie_get (payments paid) (id_p payment0) = Some payment0
   \<and> fst (createPayment env0' 0 500 ''EUR'' ''ICP'' paid) = Inr payment1
   \<and> id_p payment1 = id_p payment0
   \<and> amount payment1 = 500 \<and> amount payment0 = 300
   \<and> Trie_get (payments (snd (createPayment env0' 0 500 ''EUR'' ''ICP'' paid))) (id_p payment0)
       = Some payment1
   \<and> length (Trie_iter (payments (snd (createPayment env0' 0 500 ''EUR'' ''ICP'' paid)))) = 1"
proof -
  have id0: "id_p payment0 = generatePaymentId env0" and am0: "amount payment0 = 300"
    by (simp_all add: payment0_def)
  have id1: "id_p payment1 = generatePaymentId env0" and am1: "amount payment1 = 500"
    by (simp_all add: payment1_def generatePaymentId_same)
  have stored: "Trie_get (payments paid) (id_p payment0) = Some payment0"
    by (simp add: id0 paid_payment(2))
  have ret: "fst (createPayment env0' 0 500 ''EUR'' ''ICP'' paid) = Inr payment1"
    by (simp add: paid_second)
  have ids: "id_p payment1 = id_p payment0"
    by (simp add: id0 id1)
  have over: "Trie_get (payments (snd (createPayment env0' 0 500 ''EUR'' ''ICP'' paid)))
                (id_p payment0) = Some payment1"
    by (simp add: paid_second id0 Trie_get_put)
  have one: "length (Trie_iter (payments (snd (createPayment env0' 0 500 ''EUR'' ''ICP'' paid))))
             = 1"
    by (simp add: paid_second paid_payment(4) Trie_iter_put Trie_iter_empty)
  show ?thesis
    by (intro conjI) (fact env0'_facts paid_payment(1) stored ret ids am1 am0 over one)+
qed

end
